theory Spec2Isabelle
  imports Complex_Main "HOL-Library.Char_ord" "HOL-Library.List_Lexorder"
    "HOL-Library.Product_Lexorder" "HOL-Library.Multiset"
begin

section \<open>Values, errors and library parameters\<close>

text \<open>
  A dataframe cell is missing (\<open>Null\<close>: pandas NaN, NaT and Python None), a number, a text
  or a timestamp (nanoseconds since the epoch). Floating-point numbers are modelled by
  exact reals: the code compares them and, in one place, divides two counts.
\<close>

datatype cell = Null | Num real | Str string | Time int

datatype error =
    KeyError string
  | ValueError string
  | TypeError string
  | AttributeError string
  | InterfaceError string

text \<open>
  Functions of pandas, Python and hashlib that the code calls on text and that are not
  part of the repository are parameters of the model.
\<close>

record lib =
  to_datetime_text :: "string \<Rightarrow> int option"
  to_datetime_num :: "real \<Rightarrow> int option"
  to_numeric_text :: "string \<Rightarrow> real option"
  float_text :: "string \<Rightarrow> real option"
  str_num :: "real \<Rightarrow> string"
  str_time :: "int \<Rightarrow> string"
  isoformat :: "int \<Rightarrow> string"
  isoformat_sp :: "int \<Rightarrow> string"
  md5_hex :: "string \<Rightarrow> string"

subsection \<open>Text\<close>

text \<open>
  Python strings are modelled as byte strings: case mapping, whitespace, digits and word
  characters are those of ASCII.
\<close>

definition lower_char :: "char \<Rightarrow> char" where
  "lower_char c =
     (case map_of (zip ''ABCDEFGHIJKLMNOPQRSTUVWXYZ'' ''abcdefghijklmnopqrstuvwxyz'') c of
        Some d \<Rightarrow> d
      | None \<Rightarrow> c)"

definition lower :: "string \<Rightarrow> string" where
  "lower s = map lower_char s"

definition is_space :: "char \<Rightarrow> bool" where
  "is_space c = (c \<in> set [CHR '' '', CHR 0x09, CHR 0x0A, CHR 0x0B, CHR 0x0C, CHR 0x0D,
     CHR 0x1C, CHR 0x1D, CHR 0x1E, CHR 0x1F])"

definition strip :: "string \<Rightarrow> string" where
  "strip s = rev (dropWhile is_space (rev (dropWhile is_space s)))"

definition startswith :: "string \<Rightarrow> string \<Rightarrow> bool" where
  "startswith s p = (take (length p) s = p)"

fun contains :: "string \<Rightarrow> string \<Rightarrow> bool" where
  \<comment> \<open>\<open>p in s\<close>\<close>
  "contains [] p = (p = [])"
| "contains (c # s) p = (startswith (c # s) p \<or> contains s p)"

definition is_digit :: "char \<Rightarrow> bool" where
  "is_digit c = (c \<in> set ''0123456789'')"

definition digit_val :: "char \<Rightarrow> nat" where
  "digit_val c =
     (case map_of (zip ''0123456789'' [0, 1, 2, 3, 4, 5, 6, 7, 8, 9]) c of
        Some d \<Rightarrow> d
      | None \<Rightarrow> 0)"

definition nat_of_digits :: "string \<Rightarrow> nat" where
  "nat_of_digits s = foldl (\<lambda>n c. 10 * n + digit_val c) 0 s"

definition digit_char :: "nat \<Rightarrow> char" where
  "digit_char d = ''0123456789'' ! (d mod 10)"

function str_nat :: "nat \<Rightarrow> string" where
  "str_nat n = (if n < 10 then [digit_char n] else str_nat (n div 10) @ [digit_char n])"
  by pat_completeness auto
termination
  by (relation "measure id") auto

declare str_nat.simps [simp del]

definition str_int :: "int \<Rightarrow> string" where
  \<comment> \<open>the decimal rendering of a Python int\<close>
  "str_int i = (if i < 0 then CHR ''-'' # str_nat (nat (- i)) else str_nat (nat i))"

definition int_of_float :: "real \<Rightarrow> int" where
  \<comment> \<open>\<open>int(x)\<close> of a float: rounding towards zero\<close>
  "int_of_float x = (if 0 \<le> x then \<lfloor>x\<rfloor> else \<lceil>x\<rceil>)"

subsection \<open>Frames\<close>

definition isna :: "cell \<Rightarrow> bool" where
  "isna c = (c = Null)"

text \<open>
  A dataframe: the ordered column labels, and the rows as functions from labels to cells.
  A row is read only at labels of \<open>columns\<close>.
\<close>

record frame =
  columns :: "string list"
  rows :: "(string \<Rightarrow> cell) list"

definition has_col :: "frame \<Rightarrow> string \<Rightarrow> bool" where
  "has_col df c = (c \<in> set (columns df))"

definition empty_frame :: "frame \<Rightarrow> bool" where
  \<comment> \<open>\<open>DataFrame.empty\<close>: no rows or no columns\<close>
  "empty_frame df = (rows df = [] \<or> columns df = [])"

definition map_col :: "string \<Rightarrow> (cell \<Rightarrow> cell) \<Rightarrow> frame \<Rightarrow> frame" where
  \<comment> \<open>\<open>df[c] = f(df[c])\<close>, elementwise, for an existing column\<close>
  "map_col c f df = df\<lparr>rows := map (\<lambda>r. r(c := f (r c))) (rows df)\<rparr>"

definition set_col :: "string \<Rightarrow> ((string \<Rightarrow> cell) \<Rightarrow> cell) \<Rightarrow> frame \<Rightarrow> frame" where
  \<comment> \<open>\<open>df[c] = ...\<close> computed from each row; a new label is appended\<close>
  "set_col c f df =
     \<lparr>columns = (if c \<in> set (columns df) then columns df else columns df @ [c]),
      rows = map (\<lambda>r. r(c := f r)) (rows df)\<rparr>"

definition col_values :: "frame \<Rightarrow> string \<Rightarrow> cell list" where
  "col_values df c = map (\<lambda>r. r c) (rows df)"

definition select_cols :: "string list \<Rightarrow> frame \<Rightarrow> error + frame" where
  \<comment> \<open>\<open>df[cols]\<close>: KeyError when a label is absent\<close>
  "select_cols cs df =
     (case filter (\<lambda>c. c \<notin> set (columns df)) cs of
        c # _ \<Rightarrow> Inl (KeyError c)
      | [] \<Rightarrow> Inr \<lparr>columns = cs,
                  rows = map (\<lambda>r c. if c \<in> set cs then r c else Null) (rows df)\<rparr>)"

definition dropna :: "string list \<Rightarrow> frame \<Rightarrow> frame" where
  \<comment> \<open>\<open>df.dropna(subset=cs)\<close>\<close>
  "dropna cs df = df\<lparr>rows := filter (\<lambda>r. \<forall>c \<in> set cs. \<not> isna (r c)) (rows df)\<rparr>"

definition row_of :: "(string \<times> cell) list \<Rightarrow> string \<Rightarrow> cell" where
  \<comment> \<open>a row given by its labelled cells\<close>
  "row_of kvs c = (case map_of kvs c of Some v \<Rightarrow> v | None \<Rightarrow> Null)"

section \<open>Helpers (etl.py)\<close>

definition is_word_char :: "char \<Rightarrow> bool" where
  \<comment> \<open>the regular expression class \<open>\w\<close>\<close>
  "is_word_char c =
     (c \<in> set ''abcdefghijklmnopqrstuvwxyzABCDEFGHIJKLMNOPQRSTUVWXYZ0123456789_'')"

fun collapse_runs :: "(char \<Rightarrow> bool) \<Rightarrow> bool \<Rightarrow> string \<Rightarrow> string" where
  \<comment> \<open>\<open>re.sub(r"[Q]+", "_", s)\<close>: each maximal run of characters in \<open>Q\<close> becomes one
      underscore; the flag says that the previous character was in a run\<close>
  "collapse_runs Q prev [] = []"
| "collapse_runs Q prev (c # s) =
     (if Q c then (if prev then collapse_runs Q True s else CHR ''_'' # collapse_runs Q True s)
      else c # collapse_runs Q False s)"

definition strip_underscores :: "string \<Rightarrow> string" where
  "strip_underscores s =
     rev (dropWhile (\<lambda>c. c = CHR ''_'') (rev (dropWhile (\<lambda>c. c = CHR ''_'') s)))"

definition standardize_name :: "string \<Rightarrow> string" where
  "standardize_name c =
     (let c2 = lower (strip c);
          c2 = collapse_runs (\<lambda>x. \<not> is_word_char x) False c2
      in strip_underscores (collapse_runs (\<lambda>x. x = CHR ''_'') False c2))"

definition standardize_columns :: "frame \<Rightarrow> frame" where
  \<comment> \<open>only the labels change; a row is read at a new label through the first old label
      that is renamed to it\<close>
  "standardize_columns df =
     \<lparr>columns = map standardize_name (columns df),
      rows = map (\<lambda>r c'. case find (\<lambda>c. standardize_name c = c') (columns df) of
                            Some c \<Rightarrow> r c
                          | None \<Rightarrow> Null) (rows df)\<rparr>"

definition first_existing_col :: "frame \<Rightarrow> string list \<Rightarrow> string option" where
  "first_existing_col df candidates = find (\<lambda>c. c \<in> set (columns df)) candidates"

definition py_str :: "lib \<Rightarrow> cell \<Rightarrow> string" where
  \<comment> \<open>\<open>str(x)\<close>; a missing value of a column read from a file is the float NaN\<close>
  "py_str L x =
     (case x of
        Null \<Rightarrow> ''nan''
      | Num v \<Rightarrow> str_num L v
      | Str s \<Rightarrow> s
      | Time t \<Rightarrow> str_time L t)"

definition to_machine_str :: "lib \<Rightarrow> cell \<Rightarrow> cell" where
  "to_machine_str L x =
     (if isna x then Null
      else let s = lower (strip (py_str L x)) in
        if s = [] then Null
        else if startswith s ''machine_'' then Str s
        else (case float_text L s of
                Some v \<Rightarrow> Str (''machine_'' @ str_int (int_of_float v))
              | None \<Rightarrow> Str s))"

definition blank :: "lib \<Rightarrow> cell \<Rightarrow> bool" where
  \<comment> \<open>the identifiers that \<open>_to_machine_str\<close> maps to None: missing, or empty once stripped\<close>
  "blank L x = (isna x \<or> strip (py_str L x) = [])"

definition derive_line_id :: "lib \<Rightarrow> cell \<Rightarrow> cell" where
  "derive_line_id L machine_id =
     (if isna machine_id then Null
      else let m = takeWhile is_digit (dropWhile (\<lambda>c. \<not> is_digit c) (py_str L machine_id)) in
        if m = [] then Null
        else let num = int (nat_of_digits m);
                 line_num = (num - 1) div 10 + 1
             in Str (''Line_'' @ str_int line_num))"

definition format_field :: "lib \<Rightarrow> cell \<Rightarrow> string" where
  \<comment> \<open>a value inside an f-string; the identities are \<open>Optional[str]\<close>, None prints as
      \<open>None\<close>\<close>
  "format_field L x = (case x of Null \<Rightarrow> ''None'' | _ \<Rightarrow> py_str L x)"

definition isoformat_cell :: "lib \<Rightarrow> cell \<Rightarrow> string" where
  \<comment> \<open>\<open>timestamp.isoformat()\<close>; NaT prints as \<open>NaT\<close>\<close>
  "isoformat_cell L ts = (case ts of Time t \<Rightarrow> isoformat L t | _ \<Rightarrow> ''NaT'')"

definition make_record_id :: "lib \<Rightarrow> cell \<Rightarrow> cell \<Rightarrow> cell \<Rightarrow> string" where
  "make_record_id L timestamp line_id machine_id =
     (let key = isoformat_cell L timestamp @ ''|'' @ format_field L line_id @ ''|''
                @ format_field L machine_id
      in md5_hex L key)"

definition to_datetime :: "lib \<Rightarrow> cell \<Rightarrow> cell" where
  \<comment> \<open>\<open>pd.to_datetime(..., errors="coerce")\<close>, elementwise\<close>
  "to_datetime L x =
     (case x of
        Null \<Rightarrow> Null
      | Time t \<Rightarrow> Time t
      | Str s \<Rightarrow> (case to_datetime_text L s of Some t \<Rightarrow> Time t | None \<Rightarrow> Null)
      | Num v \<Rightarrow> (case to_datetime_num L v of Some t \<Rightarrow> Time t | None \<Rightarrow> Null))"

definition to_numeric :: "lib \<Rightarrow> cell \<Rightarrow> cell" where
  \<comment> \<open>\<open>pd.to_numeric(..., errors="coerce")\<close>, elementwise\<close>
  "to_numeric L x =
     (case x of
        Null \<Rightarrow> Null
      | Num v \<Rightarrow> Num v
      | Str s \<Rightarrow> (case to_numeric_text L s of Some v \<Rightarrow> Num v | None \<Rightarrow> Null)
      | Time t \<Rightarrow> Num (of_int t))"

subsection \<open>Sorting and filling\<close>

text \<open>
  \<open>sort_values\<close> puts missing keys last and is modelled as a stable sort; values of
  different kinds in one key column cannot be ordered. The rows carry their index labels.
\<close>

definition cell_key :: "cell \<Rightarrow> nat \<times> real \<times> string \<times> int" where
  "cell_key x =
     (case x of
        Null \<Rightarrow> (1, 0, [], 0)
      | Num v \<Rightarrow> (0, v, [], 0)
      | Str s \<Rightarrow> (0, 0, s, 0)
      | Time t \<Rightarrow> (0, 0, [], t))"

definition cell_kind :: "cell \<Rightarrow> nat" where
  "cell_kind x = (case x of Null \<Rightarrow> 0 | Num v \<Rightarrow> 1 | Str s \<Rightarrow> 2 | Time t \<Rightarrow> 3)"

definition sortable :: "cell list \<Rightarrow> bool" where
  "sortable xs = (length (remdups (map cell_kind (filter (\<lambda>x. \<not> isna x) xs))) \<le> 1)"

definition sort_values ::
  "string list \<Rightarrow> string list \<Rightarrow> (nat \<times> (string \<Rightarrow> cell)) list \<Rightarrow>
   error + (nat \<times> (string \<Rightarrow> cell)) list" where
  "sort_values cols keys irows =
     (case filter (\<lambda>c. c \<notin> set cols) keys of
        c # _ \<Rightarrow> Inl (KeyError c)
      | [] \<Rightarrow>
          if \<exists>c \<in> set keys. \<not> sortable (map (\<lambda>ir. snd ir c) irows)
          then Inl (TypeError ''unorderable values'')
          else Inr (sort_key (\<lambda>ir. map (\<lambda>c. cell_key (snd ir c)) keys) irows))"

fun ffill_rows ::
  "string list \<Rightarrow> (string \<Rightarrow> cell) \<Rightarrow> (string \<Rightarrow> cell) list \<Rightarrow> (string \<Rightarrow> cell) list" where
  \<comment> \<open>\<open>df[cols].ffill()\<close>: \<open>seen\<close> holds the latest value seen in each column\<close>
  "ffill_rows cols seen [] = []"
| "ffill_rows cols seen (r # rs) =
     (let r' = (\<lambda>c. if c \<in> set cols \<and> isna (r c) then seen c else r c)
      in r' # ffill_rows cols r' rs)"

fun group_ffill_rows ::
  "string \<Rightarrow> string list \<Rightarrow> (cell \<Rightarrow> string \<Rightarrow> cell) \<Rightarrow> (string \<Rightarrow> cell) list \<Rightarrow>
   (string \<Rightarrow> cell) list" where
  \<comment> \<open>\<open>df.groupby(g)[cols].ffill()\<close> written back to \<open>df[cols]\<close>: \<open>seen\<close> holds the latest
      value seen in each group and column; a row whose group key is missing belongs to
      no group and gets missing values\<close>
  "group_ffill_rows g cols seen [] = []"
| "group_ffill_rows g cols seen (r # rs) =
     (if isna (r g)
      then (\<lambda>c. if c \<in> set cols then Null else r c) # group_ffill_rows g cols seen rs
      else let r' = (\<lambda>c. if c \<in> set cols \<and> isna (r c) then seen (r g) c else r c)
           in r' # group_ffill_rows g cols (seen(r g := r')) rs)"

section \<open>Cleaning sensor data\<close>

definition error_values :: "cell list" where
  "error_values = [Num (- 999), Num (- 1), Str ''-999'', Str ''-1'', Str ''NULL'',
     Str ''null'', Str ''NaN'', Str ''nan'', Str []]"

definition replace_errors :: "cell \<Rightarrow> cell" where
  \<comment> \<open>\<open>df[c].replace(error_values, np.nan)\<close>, elementwise\<close>
  "replace_errors x = (if x \<in> set error_values then Null else x)"

definition ranges :: "(string \<times> real \<times> real) list" where
  "ranges = [(''temperature'', 0, 150), (''pressure'', 0, 10), (''vibration'', 0, 100)]"

definition out_of_range :: "string \<Rightarrow> cell \<Rightarrow> bool" where
  \<comment> \<open>\<open>(df[col] < lo) | (df[col] > hi)\<close>; a comparison with a missing value is false\<close>
  "out_of_range col x =
     (case map_of ranges col of
        None \<Rightarrow> False
      | Some (lo, hi) \<Rightarrow> (case x of Num v \<Rightarrow> v < lo \<or> v > hi | _ \<Rightarrow> False))"

definition sensor_names :: "string list" where
  "sensor_names = [''temperature'', ''pressure'', ''vibration'', ''power'']"

definition parse_sensor_frame :: "lib \<Rightarrow> frame \<Rightarrow> frame" where
  \<comment> \<open>lines 195 to 203: labels, timestamps, the \<open>power\<close> alias\<close>
  "parse_sensor_frame L df0 =
     (let df = standardize_columns df0;
          df = (if ''timestamp'' \<in> set (columns df)
                then map_col ''timestamp'' (to_datetime L) df else df)
      in if ''power'' \<notin> set (columns df) \<and> ''energy_consumption'' \<in> set (columns df)
         then set_col ''power'' (\<lambda>r. r ''energy_consumption'') df
         else df)"

definition sensor_cols_of :: "frame \<Rightarrow> string list" where
  "sensor_cols_of df = filter (\<lambda>c. c \<in> set (columns df)) sensor_names"

definition coerce_sensor :: "lib \<Rightarrow> string list \<Rightarrow> frame \<Rightarrow> frame" where
  \<comment> \<open>lines 207 to 211, for every sensor column\<close>
  "coerce_sensor L sensor_cols df =
     df\<lparr>rows := map (\<lambda>r c. if c \<in> set sensor_cols
                              then to_numeric L (replace_errors (r c)) else r c) (rows df)\<rparr>"

definition invalid_mask :: "string list \<Rightarrow> frame \<Rightarrow> (string \<Rightarrow> bool) list" where
  \<comment> \<open>lines 220 to 224: one row of flags for each row of the frame\<close>
  "invalid_mask sensor_cols df =
     map (\<lambda>r c. c \<in> set sensor_cols \<and> out_of_range c (r c)) (rows df)"

definition blank_invalid :: "frame \<Rightarrow> frame" where
  \<comment> \<open>line 225: \<open>df.loc[bad, col] = np.nan\<close> for every column of \<open>ranges\<close> in the frame\<close>
  "blank_invalid df =
     df\<lparr>rows := map (\<lambda>r c. if c \<in> set (columns df) \<and> out_of_range c (r c)
                              then Null else r c) (rows df)\<rparr>"

definition validated :: "lib \<Rightarrow> frame \<Rightarrow> frame" where
  \<comment> \<open>the frame before it is sorted\<close>
  "validated L df0 =
     (let df = parse_sensor_frame L df0
      in blank_invalid (coerce_sensor L (sensor_cols_of df) df))"

definition missing_before_of :: "lib \<Rightarrow> frame \<Rightarrow> (string \<Rightarrow> bool) list" where
  \<comment> \<open>line 227: \<open>df[sensor_cols].isna() | invalid_mask\<close>\<close>
  "missing_before_of L df0 =
     (let df = parse_sensor_frame L df0;
          sensor_cols = sensor_cols_of df;
          mask = invalid_mask sensor_cols (coerce_sensor L sensor_cols df)
      in map2 (\<lambda>r m c. c \<in> set sensor_cols \<and> (isna (r c) \<or> m c))
           (rows (validated L df0)) mask)"

definition series_and :: "(nat \<times> bool) list \<Rightarrow> (nat \<times> bool) list \<Rightarrow> (nat \<times> bool) list" where
  \<comment> \<open>\<open>a & b\<close> on two labelled series over the same labels: pandas aligns the operands on
      their labels, and the result is in increasing label order, the order of \<open>a\<close> here\<close>
  "series_and a b =
     map (\<lambda>(i, x). (i, x \<and> (case map_of b i of Some y \<Rightarrow> y | None \<Rightarrow> False))) a"

definition np_where :: "bool list \<Rightarrow> string list \<Rightarrow> string list \<Rightarrow> string list" where
  \<comment> \<open>\<open>np.where\<close> reads its arguments by position, whatever their labels\<close>
  "np_where cond xs ys = map (\<lambda>(b, x, y). if b then x else y) (zip cond (zip xs ys))"

definition fill_sorted ::
  "frame \<Rightarrow> string list \<Rightarrow> (string \<Rightarrow> cell) list \<Rightarrow> (string \<Rightarrow> cell) list" where
  \<comment> \<open>lines 236 to 239\<close>
  "fill_sorted df sensor_cols rs =
     (if ''machine_id'' \<in> set (columns df)
      then group_ffill_rows ''machine_id'' sensor_cols (\<lambda>_ _. Null) rs
      else ffill_rows sensor_cols (\<lambda>_. Null) rs)"

definition sort_cols_of :: "frame \<Rightarrow> string list" where
  "sort_cols_of df =
     (if ''machine_id'' \<in> set (columns df) then [''machine_id'', ''timestamp'']
      else [''timestamp''])"

text \<open>
  The frame handed to the cleaner carries the index its reader gave it: the labels
  increase along the rows, so the model numbers the rows by position.
\<close>

definition clean_sensor_data :: "lib \<Rightarrow> frame \<Rightarrow> error + frame" where
  "clean_sensor_data L df0 =
     (let df = validated L df0;
          sensor_cols = sensor_cols_of df;
          missing_before = missing_before_of L df0
      in case sort_values (columns df) (sort_cols_of df) (enumerate 0 (rows df)) of
           Inl e \<Rightarrow> Inl e
         | Inr srt \<Rightarrow>
             (let filled = fill_sorted df sensor_cols (map snd srt);
                  still_missing = zip (map fst srt)
                     (map (\<lambda>r. \<exists>c \<in> set sensor_cols. isna (r c)) filled);
                  was_estimated = series_and
                     (enumerate 0 (map (\<lambda>m. \<exists>c \<in> set sensor_cols. m c) missing_before))
                     (map (\<lambda>(i, b). (i, \<not> b)) still_missing);
                  n = length filled;
                  data_quality = np_where (map snd still_missing) (replicate n ''invalid'')
                     (np_where (map snd was_estimated) (replicate n ''estimated'')
                        (replicate n ''good''))
              in Inr \<lparr>columns = (if ''data_quality'' \<in> set (columns df) then columns df
                                  else columns df @ [''data_quality'']),
                       rows = map2 (\<lambda>r q. r(''data_quality'' := Str q)) filled data_quality\<rparr>))"

section \<open>Standardizing sensor data\<close>

definition out_cols :: "string list" where
  "out_cols = [''record_id'', ''timestamp'', ''line_id'', ''machine_id'', ''temperature'',
     ''pressure'', ''vibration'', ''power'', ''data_quality'']"

definition ensure_numeric :: "lib \<Rightarrow> string \<Rightarrow> frame \<Rightarrow> frame" where
  \<comment> \<open>lines 279 to 281, for one column\<close>
  "ensure_numeric L col df =
     map_col col (to_numeric L)
       (if col \<notin> set (columns df) then set_col col (\<lambda>_. Null) df else df)"

definition standardize_sensor_data :: "lib \<Rightarrow> frame \<Rightarrow> error + frame" where
  "standardize_sensor_data L df0 =
     (let df = standardize_columns df0 in
      if ''timestamp'' \<notin> set (columns df)
      then Inl (ValueError ''Sensor data must contain timestamp.'')
      else
        let df = dropna [''timestamp''] (map_col ''timestamp'' (to_datetime L) df) in
        if ''machine_id'' \<notin> set (columns df)
        then Inl (ValueError ''Sensor data must contain machine_id.'')
        else
          let df = map_col ''machine_id'' (to_machine_str L) df;
              df = set_col ''line_id'' (\<lambda>r. derive_line_id L (r ''machine_id'')) df;
              df = fold (ensure_numeric L) sensor_names df;
              df = (if ''data_quality'' \<notin> set (columns df)
                    then set_col ''data_quality'' (\<lambda>_. Str ''good'') df else df);
              df = set_col ''record_id''
                     (\<lambda>r. Str (make_record_id L (r ''timestamp'') (r ''line_id'')
                                 (r ''machine_id''))) df
          in select_cols out_cols df)"

section \<open>Transforming quality data\<close>

definition rename_col :: "string \<Rightarrow> string \<Rightarrow> frame \<Rightarrow> frame" where
  \<comment> \<open>\<open>df.rename(columns={old: new})\<close>\<close>
  "rename_col old new df =
     \<lparr>columns = map (\<lambda>c. if c = old then new else c) (columns df),
      rows = map (\<lambda>r c. if c = new then r old else r c) (rows df)\<rparr>"

definition locate_timestamp :: "frame \<Rightarrow> error + frame" where
  \<comment> \<open>lines 321 to 331\<close>
  "locate_timestamp df =
     (if ''timestamp'' \<in> set (columns df) then Inr df
      else case first_existing_col df [''time'', ''datetime'', ''date_time''] of
             Some ts \<Rightarrow> Inr (rename_col ts ''timestamp'' df)
           | None \<Rightarrow>
               (case filter (\<lambda>c. contains c ''time'') (columns df) of
                  [] \<Rightarrow> Inl (ValueError ''Quality data must include a timestamp/time column.'')
                | c # _ \<Rightarrow> Inr (rename_col c ''timestamp'' df)))"

definition canonical_result :: "string \<Rightarrow> string" where
  \<comment> \<open>\<open>replace({"passed": "pass", "failed": "fail", "ok": "pass", "ng": "fail"})\<close>\<close>
  "canonical_result s =
     (case map_of [(''passed'', ''pass''), (''failed'', ''fail''), (''ok'', ''pass''),
                   (''ng'', ''fail'')] s of
        Some t \<Rightarrow> t
      | None \<Rightarrow> s)"

definition flag_value :: "lib \<Rightarrow> cell \<Rightarrow> cell" where
  \<comment> \<open>\<open>pd.to_numeric(..., errors="coerce").fillna(0).astype(int)\<close>\<close>
  "flag_value L x =
     (case to_numeric L x of
        Num v \<Rightarrow> Num (of_int (int_of_float v))
      | _ \<Rightarrow> Num 0)"

definition infer_result :: "lib \<Rightarrow> frame \<Rightarrow> frame" where
  \<comment> \<open>lines 337 to 346\<close>
  "infer_result L df =
     (if ''result'' \<in> set (columns df)
      then map_col ''result'' (\<lambda>x. Str (canonical_result (strip (lower (py_str L x))))) df
      else case first_existing_col df
                  [''fault_label'', ''defect_flag'', ''defect'', ''anomaly_flag''] of
             Some label_col \<Rightarrow>
               set_col ''result''
                 (\<lambda>r. Str (if r label_col = Num 1 then ''fail'' else ''pass''))
                 (map_col label_col (flag_value L) df)
           | None \<Rightarrow> set_col ''result'' (\<lambda>_. Str ''pass'') df)"

definition infer_defect_type :: "frame \<Rightarrow> frame" where
  \<comment> \<open>lines 348 and 349\<close>
  "infer_defect_type df =
     (if ''defect_type'' \<notin> set (columns df)
      then set_col ''defect_type''
             (\<lambda>r. if r ''result'' = Str ''fail'' then Str ''fault'' else Null) df
      else df)"

definition times_of :: "cell list \<Rightarrow> int list" where
  "times_of xs = concat (map (\<lambda>x. case x of Time t \<Rightarrow> [t] | _ \<Rightarrow> []) xs)"

definition ts_min :: "cell list \<Rightarrow> cell" where
  \<comment> \<open>\<open>Series.min()\<close> of a datetime column: missing values are skipped\<close>
  "ts_min xs = (case times_of xs of [] \<Rightarrow> Null | t # ts \<Rightarrow> Time (fold min ts t))"

definition ts_max :: "cell list \<Rightarrow> cell" where
  "ts_max xs = (case times_of xs of [] \<Rightarrow> Null | t # ts \<Rightarrow> Time (fold max ts t))"

definition between :: "cell \<Rightarrow> cell \<Rightarrow> cell \<Rightarrow> bool" where
  \<comment> \<open>\<open>Series.between(lo, hi)\<close>, inclusive; false when a side is missing\<close>
  "between lo hi x =
     (case (lo, hi, x) of
        (Time a, Time b, Time t) \<Rightarrow> a \<le> t \<and> t \<le> b
      | _ \<Rightarrow> False)"

definition shift_of :: "cell \<Rightarrow> cell \<Rightarrow> int option" where
  \<comment> \<open>the difference of two timestamps; NaT when one is missing\<close>
  "shift_of a b = (case (a, b) of (Time x, Time y) \<Rightarrow> Some (x - y) | _ \<Rightarrow> None)"

definition add_shift :: "int option \<Rightarrow> cell \<Rightarrow> cell" where
  "add_shift d x = (case (d, x) of (Some k, Time t) \<Rightarrow> Time (t + k) | _ \<Rightarrow> Null)"

definition usable :: "frame option \<Rightarrow> frame option" where
  \<comment> \<open>\<open>sensor_df is not None and not sensor_df.empty\<close>\<close>
  "usable sensor_df =
     (case sensor_df of
        None \<Rightarrow> None
      | Some s \<Rightarrow> if empty_frame s then None else Some s)"

definition has_overlap :: "frame \<Rightarrow> frame \<Rightarrow> bool" where
  \<comment> \<open>line 355, for a sensor frame \<open>s\<close> with a timestamp column\<close>
  "has_overlap s df =
     (\<exists>x \<in> set (col_values df ''timestamp'').
        between (ts_min (col_values s ''timestamp'')) (ts_max (col_values s ''timestamp'')) x)"

definition align_timestamps :: "frame option \<Rightarrow> frame \<Rightarrow> error + frame" where
  \<comment> \<open>lines 352 to 358\<close>
  "align_timestamps sensor_df df =
     (case usable sensor_df of
        None \<Rightarrow> Inr df
      | Some s \<Rightarrow>
          if ''timestamp'' \<notin> set (columns s) then Inl (KeyError ''timestamp'')
          else if \<not> has_overlap s df
          then let shift = shift_of (ts_max (col_values s ''timestamp''))
                             (ts_max (col_values df ''timestamp''))
               in Inr (map_col ''timestamp'' (add_shift shift) df)
          else Inr df)"

fun drop_duplicates ::
  "string \<Rightarrow> cell list \<Rightarrow> (string \<Rightarrow> cell) list \<Rightarrow> (string \<Rightarrow> cell) list" where
  \<comment> \<open>\<open>drop_duplicates(subset=[c])\<close>: the first row of each key is kept\<close>
  "drop_duplicates c seen [] = []"
| "drop_duplicates c seen (r # rs) =
     (if r c \<in> set seen then drop_duplicates c seen rs
      else r # drop_duplicates c (r c # seen) rs)"

definition merge_left :: "string \<Rightarrow> frame \<Rightarrow> frame \<Rightarrow> frame" where
  \<comment> \<open>\<open>df.merge(lookup, on=key, how="left")\<close>: a label other than the key that both frames
      have gets the suffixes \<open>_x\<close> and \<open>_y\<close>; equal keys match, also when missing\<close>
  "merge_left key df lookup =
     (let rcols = filter (\<lambda>c. c \<noteq> key) (columns lookup);
          both = filter (\<lambda>c. c \<in> set rcols) (columns df);
          lnames = map (\<lambda>c. if c \<in> set both then c @ ''_x'' else c) (columns df);
          rnames = map (\<lambda>c. if c \<in> set both then c @ ''_y'' else c) rcols;
          joined = (\<lambda>r l. row_of (zip lnames (map r (columns df)) @ zip rnames (map l rcols)))
      in \<lparr>columns = lnames @ rnames,
          rows = concat (map (\<lambda>r.
                   case filter (\<lambda>l. l key = r key) (rows lookup) of
                     [] \<Rightarrow> [joined r (\<lambda>_. Null)]
                   | ms \<Rightarrow> map (joined r) ms) (rows df))\<rparr>)"

definition backfill_identity :: "lib \<Rightarrow> frame option \<Rightarrow> frame \<Rightarrow> error + frame" where
  \<comment> \<open>lines 361 to 370\<close>
  "backfill_identity L sensor_df df =
     (if ''machine_id'' \<notin> set (columns df)
         \<or> (\<forall>x \<in> set (col_values df ''machine_id''). isna x)
      then (case usable sensor_df of
              Some s \<Rightarrow>
                (case select_cols [''timestamp'', ''machine_id'', ''line_id''] s of
                   Inl e \<Rightarrow> Inl e
                 | Inr lookup \<Rightarrow>
                     Inr (merge_left ''timestamp'' df
                            (lookup\<lparr>rows := drop_duplicates ''timestamp'' [] (rows lookup)\<rparr>)))
            | None \<Rightarrow>
                Inr (set_col ''line_id'' (\<lambda>_. Null) (set_col ''machine_id'' (\<lambda>_. Null) df)))
      else Inr (map_col ''machine_id'' (to_machine_str L) df))"

definition fill_line_id :: "lib \<Rightarrow> frame \<Rightarrow> error + frame" where
  \<comment> \<open>lines 372 and 373\<close>
  "fill_line_id L df =
     (if ''line_id'' \<notin> set (columns df) \<or> (\<forall>x \<in> set (col_values df ''line_id''). isna x)
      then (if ''machine_id'' \<notin> set (columns df) then Inl (KeyError ''machine_id'')
            else Inr (set_col ''line_id'' (\<lambda>r. derive_line_id L (r ''machine_id'')) df))
      else Inr df)"

definition quality_out_cols :: "string list" where
  "quality_out_cols = [''timestamp'', ''line_id'', ''machine_id'', ''result'', ''defect_type'']"

definition transform_quality_data :: "lib \<Rightarrow> frame \<Rightarrow> frame option \<Rightarrow> error + frame" where
  "transform_quality_data L df0 sensor_df =
     (case locate_timestamp (standardize_columns df0) of
        Inl e \<Rightarrow> Inl e
      | Inr df \<Rightarrow>
     (let df = dropna [''timestamp''] (map_col ''timestamp'' (to_datetime L) df);
          df = infer_defect_type (infer_result L df)
      in case align_timestamps sensor_df df of
           Inl e \<Rightarrow> Inl e
         | Inr df \<Rightarrow>
     (case backfill_identity L sensor_df df of
        Inl e \<Rightarrow> Inl e
      | Inr df \<Rightarrow>
     (case fill_line_id L df of
        Inl e \<Rightarrow> Inl e
      | Inr df \<Rightarrow>
     (case select_cols quality_out_cols df of
        Inl e \<Rightarrow> Inl e
      | Inr out \<Rightarrow> Inr (dropna [''timestamp'', ''machine_id'', ''line_id''] out))))))"

section \<open>Hourly summary\<close>

definition hour_ns :: int where
  "hour_ns = 3600 * 1000000000"

definition floor_hour :: "cell \<Rightarrow> error + cell" where
  \<comment> \<open>\<open>.dt.floor("h")\<close>; the accessor exists on datetime values only\<close>
  "floor_hour x =
     (case x of
        Time t \<Rightarrow> Inr (Time (t - t mod hour_ns))
      | Null \<Rightarrow> Inr Null
      | _ \<Rightarrow> Inl (AttributeError ''Can only use .dt accessor with datetimelike values''))"

fun hours_of :: "cell list \<Rightarrow> error + cell list" where
  "hours_of [] = Inr []"
| "hours_of (x # xs) =
     (case floor_hour x of
        Inl e \<Rightarrow> Inl e
      | Inr h \<Rightarrow> (case hours_of xs of Inl e \<Rightarrow> Inl e | Inr hs \<Rightarrow> Inr (h # hs)))"

definition nums_of :: "cell list \<Rightarrow> real list" where
  "nums_of xs = concat (map (\<lambda>x. case x of Num v \<Rightarrow> [v] | _ \<Rightarrow> []) xs)"

definition agg_mean :: "cell list \<Rightarrow> cell" where
  \<comment> \<open>the mean of the values that are not missing; missing when there is none\<close>
  "agg_mean xs =
     (case nums_of xs of [] \<Rightarrow> Null | v # vs \<Rightarrow> Num (sum_list (v # vs) / real (length (v # vs))))"

definition agg_min :: "cell list \<Rightarrow> cell" where
  "agg_min xs = (case nums_of xs of [] \<Rightarrow> Null | v # vs \<Rightarrow> Num (fold min vs v))"

definition agg_max :: "cell list \<Rightarrow> cell" where
  "agg_max xs = (case nums_of xs of [] \<Rightarrow> Null | v # vs \<Rightarrow> Num (fold max vs v))"

definition total_checks_of :: "cell list \<Rightarrow> nat" where
  \<comment> \<open>\<open>x.notna().sum()\<close>\<close>
  "total_checks_of xs = length (filter (\<lambda>x. \<not> isna x) xs)"

definition defect_count_of :: "cell list \<Rightarrow> nat" where
  \<comment> \<open>\<open>(x == "fail").sum()\<close>\<close>
  "defect_count_of xs = length (filter (\<lambda>x. x = Str ''fail'') xs)"

definition defect_rate_of :: "nat \<Rightarrow> nat \<Rightarrow> real" where
  \<comment> \<open>lines 433 to 437\<close>
  "defect_rate_of total_checks defect_count =
     (if total_checks > 0 then real defect_count / real total_checks * 100 else 0)"

definition group_keys :: "string list" where
  "group_keys = [''hour'', ''line_id'', ''machine_id'']"

definition summary_row :: "(string \<Rightarrow> cell) list \<Rightarrow> cell list \<Rightarrow> string \<Rightarrow> cell" where
  \<comment> \<open>the aggregates of the rows of one group\<close>
  "summary_row rs key =
     (let grp = filter (\<lambda>r. map r group_keys = key) rs;
          total_checks = total_checks_of (map (\<lambda>r. r ''result'') grp);
          defect_count = defect_count_of (map (\<lambda>r. r ''result'') grp)
      in row_of (zip group_keys key @
           [(''avg_temperature'', agg_mean (map (\<lambda>r. r ''temperature'') grp)),
            (''min_temperature'', agg_min (map (\<lambda>r. r ''temperature'') grp)),
            (''max_temperature'', agg_max (map (\<lambda>r. r ''temperature'') grp)),
            (''avg_pressure'', agg_mean (map (\<lambda>r. r ''pressure'') grp)),
            (''avg_vibration'', agg_mean (map (\<lambda>r. r ''vibration'') grp)),
            (''total_checks'', Num (real total_checks)),
            (''defect_count'', Num (real defect_count)),
            (''defect_rate'', Num (defect_rate_of total_checks defect_count))]))"

definition summary_cols :: "string list" where
  "summary_cols = [''hour'', ''line_id'', ''machine_id'', ''avg_temperature'',
     ''min_temperature'', ''max_temperature'', ''avg_pressure'', ''avg_vibration'',
     ''total_checks'', ''defect_count'', ''defect_rate'']"

definition with_hours :: "lib \<Rightarrow> frame \<Rightarrow> cell list \<Rightarrow> frame" where
  \<comment> \<open>lines 413 to 417: the \<open>hour\<close> column, and the sensor columns made numeric\<close>
  "with_hours L joined_df hs =
     (let df = \<lparr>columns = (if ''hour'' \<in> set (columns joined_df) then columns joined_df
                           else columns joined_df @ [''hour'']),
                rows = map2 (\<lambda>r h. r(''hour'' := h)) (rows joined_df) hs\<rparr>
      in df\<lparr>rows := map (\<lambda>r c. if c \<in> set [''temperature'', ''pressure'', ''vibration'']
                                      \<and> c \<in> set (columns df)
                                   then to_numeric L (r c) else r c) (rows df)\<rparr>)"

definition summarize :: "frame \<Rightarrow> frame" where
  \<comment> \<open>lines 419 to 437: the groups are in sorted key order, missing keys last
      (\<open>dropna=False\<close>)\<close>
  "summarize df =
     (let keys = sort_key (map cell_key) (remdups (map (\<lambda>r. map r group_keys) (rows df)))
      in \<lparr>columns = summary_cols, rows = map (summary_row (rows df)) keys\<rparr>)"

definition calculate_hourly_summary :: "lib \<Rightarrow> frame \<Rightarrow> error + frame" where
  "calculate_hourly_summary L joined_df =
     (if ''timestamp'' \<notin> set (columns joined_df) then Inl (KeyError ''timestamp'')
      else case hours_of (col_values joined_df ''timestamp'') of
             Inl e \<Rightarrow> Inl e
           | Inr hs \<Rightarrow>
               (let df = with_hours L joined_df hs
                in case filter (\<lambda>c. c \<notin> set (columns df))
                          [''line_id'', ''machine_id'', ''temperature'', ''pressure'',
                           ''vibration'', ''result''] of
                     c # _ \<Rightarrow> Inl (KeyError c)
                   | [] \<Rightarrow> Inr (summarize df)))"

section \<open>The SQLite store (db.py)\<close>

datatype sqlval = SqlNull | SqlText string | SqlReal real | SqlInt int

text \<open>
  The three tables of \<open>SCHEMA_SQL\<close>; a stored row lists its columns in schema order.
\<close>

record db =
  sensor_readings :: "sqlval list list"
  quality_checks :: "sqlval list list"
  hourly_summary :: "sqlval list list"

definition unique_conflict :: "sqlval list \<Rightarrow> sqlval list \<Rightarrow> bool" where
  \<comment> \<open>SQLite: two rows collide on a unique index (and on a non-integer primary key) when
      their key columns are equal and none of them is NULL; NULLs are pairwise distinct\<close>
  "unique_conflict k k' = (SqlNull \<notin> set k \<and> k = k')"

definition insert_sensor :: "sqlval list list \<Rightarrow> sqlval list \<Rightarrow> sqlval list list" where
  \<comment> \<open>\<open>INSERT OR IGNORE INTO sensor_readings\<close>; \<open>record_id TEXT PRIMARY KEY\<close> is column 0\<close>
  "insert_sensor t v =
     (if \<exists>r \<in> set t. unique_conflict (take 1 r) (take 1 v) then t else t @ [v])"

definition next_check_id :: "sqlval list list \<Rightarrow> int" where
  \<comment> \<open>\<open>check_id INTEGER PRIMARY KEY AUTOINCREMENT\<close>; no row is ever deleted\<close>
  "next_check_id t = int (length t) + 1"

definition insert_quality :: "sqlval list list \<Rightarrow> sqlval list \<Rightarrow> sqlval list list" where
  \<comment> \<open>\<open>INSERT OR IGNORE INTO quality_checks\<close>; \<open>ux_quality\<close> is on the five columns
      after \<open>check_id\<close>\<close>
  "insert_quality t v =
     (if \<exists>r \<in> set t. unique_conflict (drop 1 r) v then t
      else t @ [SqlInt (next_check_id t) # v])"

definition bind_param :: "cell \<Rightarrow> error + sqlval" where
  \<comment> \<open>the sqlite3 module binds None and NaN as NULL and has no adapter for a Timestamp\<close>
  "bind_param c =
     (case c of
        Null \<Rightarrow> Inr SqlNull
      | Num x \<Rightarrow> Inr (SqlReal x)
      | Str s \<Rightarrow> Inr (SqlText s)
      | Time t \<Rightarrow> Inl (InterfaceError ''unsupported type''))"

fun bind_row :: "cell list \<Rightarrow> error + sqlval list" where
  "bind_row [] = Inr []"
| "bind_row (c # cs) =
     (case bind_param c of
        Inl e \<Rightarrow> Inl e
      | Inr v \<Rightarrow> (case bind_row cs of Inl e \<Rightarrow> Inl e | Inr vs \<Rightarrow> Inr (v # vs)))"

fun executemany ::
  "(sqlval list list \<Rightarrow> sqlval list \<Rightarrow> sqlval list list) \<Rightarrow> sqlval list list \<Rightarrow>
   cell list list \<Rightarrow> error + sqlval list list" where
  "executemany ins t [] = Inr t"
| "executemany ins t (r # rs) =
     (case bind_row r of
        Inl e \<Rightarrow> Inl e
      | Inr v \<Rightarrow> executemany ins (ins t v) rs)"

definition py_range0 :: "nat \<Rightarrow> int \<Rightarrow> error + nat list" where
  \<comment> \<open>\<open>range(0, n, step)\<close>\<close>
  "py_range0 n step =
     (if step = 0 then Inl (ValueError ''range() arg 3 must not be zero'')
      else if step < 0 then Inr []
      else Inr (map (\<lambda>k. k * nat step) [0..<(n + nat step - 1) div nat step]))"

definition chunked :: "'a list \<Rightarrow> int \<Rightarrow> error + 'a list list" where
  \<comment> \<open>\<open>_chunked\<close>: the slices \<open>seq[i : i + chunk_size]\<close>\<close>
  "chunked seq chunk_size =
     (case py_range0 (length seq) chunk_size of
        Inl e \<Rightarrow> Inl e
      | Inr starts \<Rightarrow> Inr (map (\<lambda>i. take (nat chunk_size) (drop i seq)) starts))"

fun run_batches ::
  "(sqlval list list \<Rightarrow> sqlval list \<Rightarrow> sqlval list list) \<Rightarrow> sqlval list list \<Rightarrow>
   cell list list list \<Rightarrow> error + sqlval list list" where
  \<comment> \<open>\<open>for batch in _chunked(rows, chunk_size): cur.executemany(insert_sql, batch)\<close>\<close>
  "run_batches ins t [] = Inr t"
| "run_batches ins t (b # bs) =
     (case executemany ins t b of
        Inl e \<Rightarrow> Inl e
      | Inr t' \<Rightarrow> run_batches ins t' bs)"

definition iso_or_none :: "lib \<Rightarrow> cell \<Rightarrow> error + cell" where
  \<comment> \<open>\<open>ts.isoformat(sep=" ") if pd.notna(ts) else None\<close>\<close>
  "iso_or_none L ts =
     (case ts of
        Null \<Rightarrow> Inr Null
      | Time t \<Rightarrow> Inr (Str (isoformat_sp L t))
      | Num x \<Rightarrow> Inl (AttributeError ''isoformat'')
      | Str s \<Rightarrow> Inl (AttributeError ''isoformat''))"

fun tuple_rows ::
  "lib \<Rightarrow> string list \<Rightarrow> nat \<Rightarrow> (string \<Rightarrow> cell) list \<Rightarrow> error + cell list list" where
  \<comment> \<open>the loop over \<open>df[cols].itertuples\<close>: position \<open>k\<close> holds the timestamp\<close>
  "tuple_rows L cols k [] = Inr []"
| "tuple_rows L cols k (r # rs) =
     (case iso_or_none L (map r cols ! k) of
        Inl e \<Rightarrow> Inl e
      | Inr ts \<Rightarrow>
          (case tuple_rows L cols k rs of
             Inl e \<Rightarrow> Inl e
           | Inr out \<Rightarrow> Inr ((map r cols)[k := ts] # out)))"

definition sensor_cols_db :: "string list" where
  "sensor_cols_db = [''record_id'', ''timestamp'', ''line_id'', ''machine_id'',
     ''temperature'', ''pressure'', ''vibration'', ''power'', ''data_quality'']"

definition quality_cols_db :: "string list" where
  "quality_cols_db = [''timestamp'', ''line_id'', ''machine_id'', ''result'', ''defect_type'']"

definition load_sensor_readings :: "lib \<Rightarrow> db \<Rightarrow> frame \<Rightarrow> int \<Rightarrow> error + db \<times> int" where
  "load_sensor_readings L conn df chunk_size =
     (case select_cols sensor_cols_db df of
        Inl e \<Rightarrow> Inl e
      | Inr sel \<Rightarrow>
     (case tuple_rows L sensor_cols_db 1 (rows sel) of
        Inl e \<Rightarrow> Inl e
      | Inr tuples \<Rightarrow>
     (let count_before = int (length (sensor_readings conn)) in
      case chunked tuples chunk_size of
        Inl e \<Rightarrow> Inl e
      | Inr batches \<Rightarrow>
     (case run_batches insert_sensor (sensor_readings conn) batches of
        Inl e \<Rightarrow> Inl e
      | Inr t \<Rightarrow>
          (let count_after = int (length t)
           in Inr (conn\<lparr>sensor_readings := t\<rparr>, count_after - count_before))))))"

definition load_quality_checks :: "lib \<Rightarrow> db \<Rightarrow> frame \<Rightarrow> int \<Rightarrow> error + db \<times> int" where
  "load_quality_checks L conn df chunk_size =
     (case select_cols quality_cols_db df of
        Inl e \<Rightarrow> Inl e
      | Inr sel \<Rightarrow>
     (case tuple_rows L quality_cols_db 0 (rows sel) of
        Inl e \<Rightarrow> Inl e
      | Inr tuples \<Rightarrow>
     (let count_before = int (length (quality_checks conn)) in
      case chunked tuples chunk_size of
        Inl e \<Rightarrow> Inl e
      | Inr batches \<Rightarrow>
     (case run_batches insert_quality (quality_checks conn) batches of
        Inl e \<Rightarrow> Inl e
      | Inr t \<Rightarrow>
          (let count_after = int (length t)
           in Inr (conn\<lparr>quality_checks := t\<rparr>, count_after - count_before))))))"

text \<open>
  The reference the batching is compared with: the same rows, inserted one statement at
  a time in the same order.
\<close>

definition load_sensor_rowwise :: "lib \<Rightarrow> db \<Rightarrow> frame \<Rightarrow> error + db \<times> int" where
  "load_sensor_rowwise L conn df =
     (case select_cols sensor_cols_db df of
        Inl e \<Rightarrow> Inl e
      | Inr sel \<Rightarrow>
     (case tuple_rows L sensor_cols_db 1 (rows sel) of
        Inl e \<Rightarrow> Inl e
      | Inr tuples \<Rightarrow>
     (case executemany insert_sensor (sensor_readings conn) tuples of
        Inl e \<Rightarrow> Inl e
      | Inr t \<Rightarrow>
          Inr (conn\<lparr>sensor_readings := t\<rparr>,
               int (length t) - int (length (sensor_readings conn))))))"

definition load_quality_rowwise :: "lib \<Rightarrow> db \<Rightarrow> frame \<Rightarrow> error + db \<times> int" where
  "load_quality_rowwise L conn df =
     (case select_cols quality_cols_db df of
        Inl e \<Rightarrow> Inl e
      | Inr sel \<Rightarrow>
     (case tuple_rows L quality_cols_db 0 (rows sel) of
        Inl e \<Rightarrow> Inl e
      | Inr tuples \<Rightarrow>
     (case executemany insert_quality (quality_checks conn) tuples of
        Inl e \<Rightarrow> Inl e
      | Inr t \<Rightarrow>
          Inr (conn\<lparr>quality_checks := t\<rparr>,
               int (length t) - int (length (quality_checks conn))))))"

section \<open>The condition of the specification for the time alignment\<close>

definition ranges_overlap :: "cell list \<Rightarrow> cell list \<Rightarrow> bool" where
  \<comment> \<open>the timestamp range of the quality data, from its minimum to its maximum, meets
      the timestamp range of the sensor data\<close>
  "ranges_overlap S Q =
     (case (ts_min S, ts_max S, ts_min Q, ts_max Q) of
        (Time a, Time b, Time c, Time d) \<Rightarrow> c \<le> b \<and> a \<le> d
      | _ \<Rightarrow> False)"

section \<open>The forward fill of the specification\<close>




definition same_identity :: "(string \<Rightarrow> cell) \<Rightarrow> (string \<Rightarrow> cell) \<Rightarrow> bool" where
  \<comment> \<open>two rows with the same timestamp, machine and line\<close>
  "same_identity r r' =
     (r' ''timestamp'' = r ''timestamp'' \<and> r' ''machine_id'' = r ''machine_id''
      \<and> r' ''line_id'' = r ''line_id'')"

section \<open>Example inputs\<close>

text \<open>
  An instance of the library parameters for evaluating the model on frames whose cells are
  already typed: no text parses, a timestamp prints as its number, and the hash is the
  identity.
\<close>

definition plain_lib :: lib where
  "plain_lib = \<lparr>to_datetime_text = (\<lambda>_. None), to_datetime_num = (\<lambda>_. None),
     to_numeric_text = (\<lambda>_. None), float_text = (\<lambda>_. None),
     str_num = (\<lambda>_. ''num''), str_time = str_int, isoformat = str_int,
     isoformat_sp = str_int, md5_hex = (\<lambda>s. s)\<rparr>"

definition empty_db :: db where
  "empty_db = \<lparr>sensor_readings = [], quality_checks = [], hourly_summary = []\<rparr>"

definition sensor_std_demo :: frame where
  \<comment> \<open>a standardized sensor frame; the first and the third row share a record_id\<close>
  "sensor_std_demo = \<lparr>columns = out_cols,
     rows = [row_of [(''record_id'', Str ''a''), (''timestamp'', Time 1),
                     (''line_id'', Str ''Line_1''), (''machine_id'', Str ''machine_1''),
                     (''temperature'', Num 20), (''data_quality'', Str ''good'')],
             row_of [(''record_id'', Str ''b''), (''timestamp'', Time 2),
                     (''line_id'', Str ''Line_1''), (''machine_id'', Str ''machine_1''),
                     (''temperature'', Num 21), (''data_quality'', Str ''good'')],
             row_of [(''record_id'', Str ''a''), (''timestamp'', Time 1),
                     (''line_id'', Str ''Line_1''), (''machine_id'', Str ''machine_1''),
                     (''temperature'', Num 22), (''data_quality'', Str ''good'')]]\<rparr>"

definition quality_demo :: frame where
  \<comment> \<open>a normalized quality frame: one passed check, whose defect_type is missing\<close>
  "quality_demo = \<lparr>columns = quality_out_cols,
     rows = [row_of [(''timestamp'', Time 1), (''line_id'', Str ''Line_1''),
                     (''machine_id'', Str ''machine_1''), (''result'', Str ''pass'')]]\<rparr>"

definition joined_demo :: frame where
  \<comment> \<open>five joined rows of one machine: four checks, one failed, in the hour starting at 0,
      and one unchecked reading in the hour before\<close>
  "joined_demo = \<lparr>columns = [''timestamp'', ''line_id'', ''machine_id'', ''temperature'',
       ''pressure'', ''vibration'', ''result''],
     rows = [row_of [(''timestamp'', Time 1), (''line_id'', Str ''Line_1''),
                     (''machine_id'', Str ''machine_1''), (''temperature'', Num 10),
                     (''result'', Str ''pass'')],
             row_of [(''timestamp'', Time 2), (''line_id'', Str ''Line_1''),
                     (''machine_id'', Str ''machine_1''), (''temperature'', Num 20),
                     (''result'', Str ''fail'')],
             row_of [(''timestamp'', Time 3), (''line_id'', Str ''Line_1''),
                     (''machine_id'', Str ''machine_1''), (''temperature'', Num 30),
                     (''result'', Str ''pass'')],
             row_of [(''timestamp'', Time 4), (''line_id'', Str ''Line_1''),
                     (''machine_id'', Str ''machine_1''), (''result'', Str ''pass'')],
             row_of [(''timestamp'', Time (- 4)), (''line_id'', Str ''Line_1''),
                     (''machine_id'', Str ''machine_1'')]]\<rparr>"

definition sensor_demo :: frame where
  \<comment> \<open>the identity columns of a standardized sensor frame: two readings, at 10 and 11\<close>
  "sensor_demo = \<lparr>columns = [''timestamp'', ''machine_id'', ''line_id''],
     rows = [row_of [(''timestamp'', Time 10), (''machine_id'', Str ''machine_1''),
                     (''line_id'', Str ''Line_1'')],
             row_of [(''timestamp'', Time 11), (''machine_id'', Str ''machine_2''),
                     (''line_id'', Str ''Line_1'')]]\<rparr>"

definition quality_wide :: frame where
  \<comment> \<open>two checks, one before and one after the sensor readings\<close>
  "quality_wide = \<lparr>columns = [''timestamp'', ''machine_id'', ''result''],
     rows = [row_of [(''timestamp'', Time 1), (''machine_id'', Str ''machine_1''),
                     (''result'', Str ''pass'')],
             row_of [(''timestamp'', Time 20), (''machine_id'', Str ''machine_2''),
                     (''result'', Str ''fail'')]]\<rparr>"

definition quality_early :: frame where
  \<comment> \<open>two checks, both before the sensor readings\<close>
  "quality_early = \<lparr>columns = [''timestamp'', ''machine_id'', ''result''],
     rows = [row_of [(''timestamp'', Time 1), (''machine_id'', Str ''machine_1''),
                     (''result'', Str ''pass'')],
             row_of [(''timestamp'', Time 2), (''machine_id'', Str ''machine_2''),
                     (''result'', Str ''fail'')]]\<rparr>"

definition quality_odd :: frame where
  \<comment> \<open>a check whose result is none of the six known words\<close>
  "quality_odd = \<lparr>columns = [''timestamp'', ''machine_id'', ''result''],
     rows = [row_of [(''timestamp'', Time 10), (''machine_id'', Str ''machine_1''),
                     (''result'', Str ''maybe'')]]\<rparr>"

definition sensor_interleaved :: frame where
  \<comment> \<open>raw readings of two machines in time order, as a sensor file lists them; the
      third temperature is out of range\<close>
  "sensor_interleaved = \<lparr>columns = [''timestamp'', ''machine_id'', ''temperature''],
     rows = [row_of [(''timestamp'', Time 1), (''machine_id'', Str ''machine_1''),
                     (''temperature'', Num 50)],
             row_of [(''timestamp'', Time 1), (''machine_id'', Str ''machine_2''),
                     (''temperature'', Num 60)],
             row_of [(''timestamp'', Time 2), (''machine_id'', Str ''machine_1''),
                     (''temperature'', Num 200)],
             row_of [(''timestamp'', Time 2), (''machine_id'', Str ''machine_2''),
                     (''temperature'', Num 61)]]\<rparr>"

definition sensor_bad_time :: frame where
  \<comment> \<open>three readings; the timestamp of the first is no date, the last has none\<close>
  "sensor_bad_time = \<lparr>columns = [''timestamp'', ''machine_id'', ''temperature''],
     rows = [row_of [(''timestamp'', Str ''not a date''), (''machine_id'', Str ''machine_1''),
                     (''temperature'', Num 50)],
             row_of [(''timestamp'', Time 1), (''machine_id'', Str ''machine_1''),
                     (''temperature'', Num 51)],
             row_of [(''timestamp'', Null), (''machine_id'', Str ''machine_1''),
                     (''temperature'', Num 52)]]\<rparr>"


definition sensor_no_machine :: frame where
  \<comment> \<open>three readings at the same time, the first without a machine, the second with a
      blank one, and a reading without a timestamp\<close>
  "sensor_no_machine = \<lparr>columns = [''timestamp'', ''machine_id'', ''temperature''],
     rows = [row_of [(''timestamp'', Time 3), (''temperature'', Num 50)],
             row_of [(''timestamp'', Time 3), (''machine_id'', Str ''  ''),
                     (''temperature'', Num 70)],
             row_of [(''timestamp'', Time 3), (''machine_id'', Str ''Machine_17''),
                     (''temperature'', Num 60)],
             row_of [(''machine_id'', Str ''machine_1''), (''temperature'', Num 60)]]\<rparr>"

definition no_frame :: frame where
  \<comment> \<open>\<open>pd.DataFrame()\<close>: no column, no row\<close>
  "no_frame = \<lparr>columns = [], rows = []\<rparr>"

definition no_rows :: frame where
  \<comment> \<open>the columns of a sensor file, and no row\<close>
  "no_rows = \<lparr>columns = [''timestamp'', ''machine_id'', ''temperature''], rows = []\<rparr>"

section \<open>Verification\<close>

lemmas eval_text = str_int_def str_nat.simps digit_char_def

subsection \<open>Batching\<close>

lemma concat_slices:
  "concat (map (\<lambda>k. take c (drop (k * c) xs)) [0..<m]) = take (m * c) xs"
proof (induction m)
  case 0
  show ?case by simp
next
  case (Suc m)
  have "take (m * c) xs @ take c (drop (m * c) xs) = take (m * c + c) xs"
    by (simp add: take_add)
  with Suc show ?case by (simp add: add.commute)
qed

lemma chunked_concat:
  assumes "0 < chunk_size"
  shows "\<exists>cs. chunked xs chunk_size = Inr cs \<and> concat cs = xs"
proof -
  define c where "c = nat chunk_size"
  define m where "m = (length xs + c - 1) div c"
  have c: "0 < c" using assms by (simp add: c_def)
  have "length xs \<le> m * c"
  proof -
    have "length xs + c - 1 < (m + 1) * c"
      unfolding m_def using c
      by (metis Suc_eq_plus1 dividend_less_div_times mult.commute mult_Suc_right)
    with c show ?thesis by simp
  qed
  then have full: "take (m * c) xs = xs" by simp
  have "chunked xs chunk_size = Inr (map (\<lambda>i. take c (drop i xs)) (map (\<lambda>k. k * c) [0..<m]))"
    using assms by (simp add: chunked_def py_range0_def c_def m_def)
  moreover have "concat (map (\<lambda>i. take c (drop i xs)) (map (\<lambda>k. k * c) [0..<m])) = xs"
    using concat_slices [of c xs m] full by (simp add: comp_def)
  ultimately show ?thesis by blast
qed

lemma executemany_append:
  "executemany ins t (xs @ ys) =
     (case executemany ins t xs of Inl e \<Rightarrow> Inl e | Inr t' \<Rightarrow> executemany ins t' ys)"
  by (induction xs arbitrary: t) (auto split: sum.splits)

lemma run_batches_concat: "run_batches ins t bs = executemany ins t (concat bs)"
  by (induction bs arbitrary: t) (auto simp: executemany_append split: sum.splits)

text \<open>
  C9. For every dataset and every positive chunk size, the chunked loaders leave the store
  in the same state and return the same count (or raise the same error) as inserting the
  same rows one at a time in the same order.
\<close>

theorem batching_equivalence:
  assumes "0 < chunk_size"
  shows "load_sensor_readings L conn df chunk_size = load_sensor_rowwise L conn df
       \<and> load_quality_checks L conn df chunk_size = load_quality_rowwise L conn df"
proof
  show "load_sensor_readings L conn df chunk_size = load_sensor_rowwise L conn df"
  proof (cases "select_cols sensor_cols_db df")
    case (Inl e)
    then show ?thesis by (simp add: load_sensor_readings_def load_sensor_rowwise_def)
  next
    case sel: (Inr sel)
    show ?thesis
    proof (cases "tuple_rows L sensor_cols_db 1 (rows sel)")
      case (Inl e)
      with sel show ?thesis by (simp add: load_sensor_readings_def load_sensor_rowwise_def)
    next
      case (Inr tuples)
      obtain cs where "chunked tuples chunk_size = Inr cs" "concat cs = tuples"
        using chunked_concat [OF assms] by blast
      with sel Inr show ?thesis
        by (simp add: load_sensor_readings_def load_sensor_rowwise_def run_batches_concat
            split: sum.splits)
    qed
  qed
next
  show "load_quality_checks L conn df chunk_size = load_quality_rowwise L conn df"
  proof (cases "select_cols quality_cols_db df")
    case (Inl e)
    then show ?thesis by (simp add: load_quality_checks_def load_quality_rowwise_def)
  next
    case sel: (Inr sel)
    show ?thesis
    proof (cases "tuple_rows L quality_cols_db 0 (rows sel)")
      case (Inl e)
      with sel show ?thesis by (simp add: load_quality_checks_def load_quality_rowwise_def)
    next
      case (Inr tuples)
      obtain cs where "chunked tuples chunk_size = Inr cs" "concat cs = tuples"
        using chunked_concat [OF assms] by blast
      with sel Inr show ?thesis
        by (simp add: load_quality_checks_def load_quality_rowwise_def run_batches_concat
            split: sum.splits)
    qed
  qed
qed

theorem batching_equivalence_witness:
  "(0::int) < 2
   \<and> load_sensor_readings plain_lib empty_db sensor_std_demo 2
       = load_sensor_rowwise plain_lib empty_db sensor_std_demo
   \<and> load_quality_checks plain_lib empty_db quality_demo 2
       = load_quality_rowwise plain_lib empty_db quality_demo
   \<and> map_sum id snd (load_sensor_rowwise plain_lib empty_db sensor_std_demo) = Inr 2"
  using batching_equivalence [of 2 plain_lib empty_db sensor_std_demo]
    batching_equivalence [of 2 plain_lib empty_db quality_demo]
  by (simp add: load_sensor_rowwise_def sensor_std_demo_def select_cols_def
      sensor_cols_db_def out_cols_def row_of_def iso_or_none_def plain_lib_def empty_db_def
      insert_sensor_def unique_conflict_def bind_param_def eval_text)

subsection \<open>Reloading\<close>

text \<open>
  C1. Loading the same dataset a second time is claimed to add no row. For the quality
  table this fails: a passed check has no defect_type, a NULL in a column of \<open>ux_quality\<close>
  never collides, and the second load of the one-row frame adds the row again.
\<close>

theorem quality_reload_duplicates:
  "load_quality_checks plain_lib empty_db quality_demo 5000
     = Inr (empty_db\<lparr>quality_checks :=
              [[SqlInt 1, SqlText ''1'', SqlText ''Line_1'', SqlText ''machine_1'',
                SqlText ''pass'', SqlNull]]\<rparr>, 1)
   \<and> load_quality_checks plain_lib
       (empty_db\<lparr>quality_checks :=
              [[SqlInt 1, SqlText ''1'', SqlText ''Line_1'', SqlText ''machine_1'',
                SqlText ''pass'', SqlNull]]\<rparr>) quality_demo 5000
     = Inr (empty_db\<lparr>quality_checks :=
              [[SqlInt 1, SqlText ''1'', SqlText ''Line_1'', SqlText ''machine_1'',
                SqlText ''pass'', SqlNull],
               [SqlInt 2, SqlText ''1'', SqlText ''Line_1'', SqlText ''machine_1'',
                SqlText ''pass'', SqlNull]]\<rparr>, 1)"
  by (simp add: load_quality_checks_def select_cols_def quality_cols_db_def
      quality_out_cols_def row_of_def iso_or_none_def plain_lib_def chunked_def py_range0_def
      empty_db_def insert_quality_def unique_conflict_def bind_param_def next_check_id_def
      quality_demo_def eval_text)

subsection \<open>Defect rate\<close>

lemma map_of_zip_other:
  assumes "k \<notin> set ks"
  shows "map_of (zip ks vs) k = None"
proof -
  have "k \<notin> fst ` set (zip ks vs)"
    using assms by (metis (no_types, lifting) imageE in_set_zipE prod.collapse)
  then show ?thesis by (simp add: map_of_eq_None_iff)
qed

lemma summary_row_counts:
  "summary_row rs key ''defect_rate'' =
     Num (defect_rate_of
       (total_checks_of (map (\<lambda>r. r ''result'') (filter (\<lambda>r. map r group_keys = key) rs)))
       (defect_count_of (map (\<lambda>r. r ''result'') (filter (\<lambda>r. map r group_keys = key) rs))))"
  "summary_row rs key ''total_checks'' =
     Num (real
       (total_checks_of (map (\<lambda>r. r ''result'') (filter (\<lambda>r. map r group_keys = key) rs))))"
  "summary_row rs key ''defect_count'' =
     Num (real
       (defect_count_of (map (\<lambda>r. r ''result'') (filter (\<lambda>r. map r group_keys = key) rs))))"
proof -
  have "''defect_rate'' \<notin> set group_keys" "''total_checks'' \<notin> set group_keys"
    "''defect_count'' \<notin> set group_keys"
    by (simp_all add: group_keys_def)
  then show
    "summary_row rs key ''defect_rate'' =
     Num (defect_rate_of
       (total_checks_of (map (\<lambda>r. r ''result'') (filter (\<lambda>r. map r group_keys = key) rs)))
       (defect_count_of (map (\<lambda>r. r ''result'') (filter (\<lambda>r. map r group_keys = key) rs))))"
    "summary_row rs key ''total_checks'' =
     Num (real
       (total_checks_of (map (\<lambda>r. r ''result'') (filter (\<lambda>r. map r group_keys = key) rs))))"
    "summary_row rs key ''defect_count'' =
     Num (real
       (defect_count_of (map (\<lambda>r. r ''result'') (filter (\<lambda>r. map r group_keys = key) rs))))"
    by (simp_all add: summary_row_def Let_def row_of_def map_of_zip_other map_add_def)
qed

lemma summary_rows:
  assumes "calculate_hourly_summary L joined_df = Inr out"
  shows "\<exists>rs keys. rows out = map (summary_row rs) keys"
proof -
  have "\<exists>df. out = summarize df"
    using assms
    by (auto simp: calculate_hourly_summary_def Let_def split: if_splits sum.splits list.splits)
  then obtain df where "out = summarize df" by blast
  then have "rows out = map (summary_row (rows df))
      (sort_key (map cell_key) (remdups (map (\<lambda>r. map r group_keys) (rows df))))"
    by (simp add: summarize_def Let_def)
  then show ?thesis by blast
qed

lemma joined_demo_summary:
  "case calculate_hourly_summary plain_lib joined_demo of
     Inl e \<Rightarrow> False
   | Inr out \<Rightarrow>
       map (\<lambda>g. map g [''hour'', ''total_checks'', ''defect_count'', ''defect_rate''])
         (rows out)
       = [[Time (- 3600000000000), Num 0, Num 0, Num 0], [Time 0, Num 4, Num 1, Num 25]]"
  by (simp add: calculate_hourly_summary_def joined_demo_def col_values_def row_of_def
      floor_hour_def hour_ns_def to_numeric_def group_keys_def cell_key_def plain_lib_def
      summary_row_def total_checks_of_def defect_count_of_def defect_rate_of_def isna_def
      summarize_def with_hours_def)

text \<open>
  C8. In every group that \<open>calculate_hourly_summary\<close> produces, defect_rate is 0 when
  total_checks is 0 and defect_count / total_checks * 100 otherwise; four checks with one
  defect give 25.
\<close>

theorem defect_rate_correct:
  assumes "calculate_hourly_summary L joined_df = Inr out"
  shows "(\<forall>g \<in> set (rows out). \<exists>total_checks defect_count :: nat.
            g ''total_checks'' = Num (real total_checks)
          \<and> g ''defect_count'' = Num (real defect_count)
          \<and> g ''defect_rate'' = Num (if total_checks = 0 then 0
                                     else real defect_count / real total_checks * 100))
       \<and> defect_rate_of 4 1 = 25"
proof
  obtain rs keys where out: "rows out = map (summary_row rs) keys"
    using summary_rows [OF assms] by blast
  show "\<forall>g \<in> set (rows out). \<exists>total_checks defect_count :: nat.
            g ''total_checks'' = Num (real total_checks)
          \<and> g ''defect_count'' = Num (real defect_count)
          \<and> g ''defect_rate'' = Num (if total_checks = 0 then 0
                                     else real defect_count / real total_checks * 100)"
  proof
    fix g assume "g \<in> set (rows out)"
    then obtain key where g: "g = summary_row rs key" using out by auto
    show "\<exists>total_checks defect_count :: nat.
            g ''total_checks'' = Num (real total_checks)
          \<and> g ''defect_count'' = Num (real defect_count)
          \<and> g ''defect_rate'' = Num (if total_checks = 0 then 0
                                     else real defect_count / real total_checks * 100)"
      unfolding g summary_row_counts defect_rate_of_def by auto
  qed
next
  show "defect_rate_of 4 1 = 25" by (simp add: defect_rate_of_def)
qed

theorem defect_rate_correct_witness:
  "\<exists>out. calculate_hourly_summary plain_lib joined_demo = Inr out
     \<and> map (\<lambda>g. map g [''hour'', ''total_checks'', ''defect_count'', ''defect_rate''])
         (rows out)
       = [[Time (- 3600000000000), Num 0, Num 0, Num 0], [Time 0, Num 4, Num 1, Num 25]]
     \<and> (\<forall>g \<in> set (rows out). \<exists>total_checks defect_count :: nat.
            g ''total_checks'' = Num (real total_checks)
          \<and> g ''defect_count'' = Num (real defect_count)
          \<and> g ''defect_rate'' = Num (if total_checks = 0 then 0
                                     else real defect_count / real total_checks * 100))"
proof -
  obtain out where out: "calculate_hourly_summary plain_lib joined_demo = Inr out"
    and vals: "map (\<lambda>g. map g [''hour'', ''total_checks'', ''defect_count'', ''defect_rate''])
         (rows out)
       = [[Time (- 3600000000000), Num 0, Num 0, Num 0], [Time 0, Num 4, Num 1, Num 25]]"
    using joined_demo_summary by (auto split: sum.splits)
  have "\<forall>g \<in> set (rows out). \<exists>total_checks defect_count :: nat.
            g ''total_checks'' = Num (real total_checks)
          \<and> g ''defect_count'' = Num (real defect_count)
          \<and> g ''defect_rate'' = Num (if total_checks = 0 then 0
                                     else real defect_count / real total_checks * 100)"
    using defect_rate_correct [OF out] by (rule conjunct1)
  with out vals show ?thesis by (intro exI conjI)
qed

subsection \<open>Quality data\<close>

lemma standard_names:
  "standardize_name ''timestamp'' = ''timestamp''"
  "standardize_name ''machine_id'' = ''machine_id''"
  "standardize_name ''result'' = ''result''"
  "standardize_name ''temperature'' = ''temperature''"
  by (simp_all add: standardize_name_def lower_def lower_char_def strip_def is_space_def
      is_word_char_def strip_underscores_def)

lemmas eval_quality = transform_quality_data_def standardize_columns_def standard_names
  locate_timestamp_def dropna_def map_col_def to_datetime_def isna_def infer_result_def
  infer_defect_type_def set_col_def py_str_def lower_def lower_char_def strip_def is_space_def
  canonical_result_def align_timestamps_def usable_def empty_frame_def has_overlap_def
  col_values_def ts_min_def ts_max_def times_of_def between_def shift_of_def add_shift_def
  backfill_identity_def to_machine_str_def startswith_def fill_line_id_def select_cols_def
  quality_out_cols_def row_of_def derive_line_id_def is_digit_def nat_of_digits_def
  digit_val_def eval_text

text \<open>
  C3. Every row that \<open>transform_quality_data\<close> returns is claimed to have the result
  \<open>pass\<close> or \<open>fail\<close>. A result column is lowercased, stripped and mapped on four
  synonyms only: any other word stays as it is.
\<close>

theorem result_vocabulary_violated:
  "\<not> isl (transform_quality_data plain_lib quality_odd (Some sensor_demo))
   \<and> map (\<lambda>r. map r quality_out_cols)
         (rows (projr (transform_quality_data plain_lib quality_odd (Some sensor_demo))))
       = [[Time 10, Str ''Line_1'', Str ''machine_1'', Str ''maybe'', Null]]"
  by (simp add: eval_quality quality_odd_def sensor_demo_def plain_lib_def)

subsection \<open>Time alignment\<close>

lemma fold_max_mem: "fold max ts (t::int) \<in> set (t # ts)"
  by (induction ts arbitrary: t) (auto simp: max_def)

lemma fold_min_mem: "fold min ts (t::int) \<in> set (t # ts)"
  by (induction ts arbitrary: t) (auto simp: min_def)

lemma fold_max_ge: "x \<in> set (t # ts) \<Longrightarrow> x \<le> fold max ts (t::int)"
  using Max_ge [of "set (t # ts)" x] by (simp only: Max.set_eq_fold List.finite_set)

lemma fold_min_le: "x \<in> set (t # ts) \<Longrightarrow> fold min ts (t::int) \<le> x"
  using Min_le [of "set (t # ts)" x] by (simp only: Min.set_eq_fold List.finite_set)

lemma times_of_mem: "t \<in> set (times_of xs) \<longleftrightarrow> Time t \<in> set xs"
  by (induction xs) (auto simp: times_of_def split: cell.splits)

lemma ts_max_mem: "ts_max xs = Time d \<Longrightarrow> Time d \<in> set xs"
proof -
  assume a: "ts_max xs = Time d"
  then obtain t ts where ts: "times_of xs = t # ts" and d: "d = fold max ts t"
    by (auto simp: ts_max_def split: list.splits)
  have "d \<in> set (times_of xs)" unfolding ts d by (rule fold_max_mem)
  then show ?thesis by (simp add: times_of_mem)
qed

lemma ts_min_mem: "ts_min xs = Time d \<Longrightarrow> Time d \<in> set xs"
proof -
  assume a: "ts_min xs = Time d"
  then obtain t ts where ts: "times_of xs = t # ts" and d: "d = fold min ts t"
    by (auto simp: ts_min_def split: list.splits)
  have "d \<in> set (times_of xs)" unfolding ts d by (rule fold_min_mem)
  then show ?thesis by (simp add: times_of_mem)
qed

lemma ts_max_ge: "ts_max xs = Time b \<Longrightarrow> Time t \<in> set xs \<Longrightarrow> t \<le> b"
proof -
  assume a: "ts_max xs = Time b" and t: "Time t \<in> set xs"
  then obtain u us where ts: "times_of xs = u # us" and b: "b = fold max us u"
    by (auto simp: ts_max_def split: list.splits)
  have "t \<in> set (u # us)" using t ts times_of_mem by metis
  then show ?thesis unfolding b by (rule fold_max_ge)
qed

lemma ts_min_le: "ts_min xs = Time a \<Longrightarrow> Time t \<in> set xs \<Longrightarrow> a \<le> t"
proof -
  assume a: "ts_min xs = Time a" and t: "Time t \<in> set xs"
  then obtain u us where ts: "times_of xs = u # us" and b: "a = fold min us u"
    by (auto simp: ts_min_def split: list.splits)
  have "t \<in> set (u # us)" using t ts times_of_mem by metis
  then show ?thesis unfolding b by (rule fold_min_le)
qed

lemma ts_max_cases: "ts_max xs = Null \<and> times_of xs = [] \<or> (\<exists>b. ts_max xs = Time b)"
  by (auto simp: ts_max_def split: list.splits)

lemma times_of_Cons:
  "times_of (x # xs) = (case x of Time t \<Rightarrow> [t] | _ \<Rightarrow> []) @ times_of xs"
  by (simp add: times_of_def)

lemma times_of_shift:
  "times_of (map (add_shift (Some k)) xs) = map (\<lambda>t. t + k) (times_of xs)"
proof (induction xs)
  case Nil
  show ?case by (simp add: times_of_def)
next
  case (Cons x xs)
  then show ?case by (cases x) (simp_all add: times_of_Cons add_shift_def)
qed

lemma fold_max_shift: "fold max (map (\<lambda>t. t + k) ts) (t + k) = fold max ts t + (k::int)"
proof (induction ts arbitrary: t)
  case Nil
  show ?case by simp
next
  case (Cons a ts)
  have "max (a + k) (t + k) = max a t + k" by (simp add: max_def)
  with Cons.IH [of "max a t"] show ?case by simp
qed

lemma ts_max_shift:
  assumes "ts_max xs = Time d"
  shows "ts_max (map (add_shift (Some k)) xs) = Time (d + k)"
proof -
  from assms obtain t ts where ts: "times_of xs = t # ts" and d: "d = fold max ts t"
    by (auto simp: ts_max_def split: list.splits)
  show ?thesis
    by (simp add: ts_max_def times_of_shift ts d fold_max_shift)
qed
lemma ts_min_cases: "ts_min xs = Null \<and> times_of xs = [] \<or> (\<exists>b. ts_min xs = Time b)"
  by (auto simp: ts_min_def split: list.splits)

lemma overlap_at_end:
  assumes "between (ts_min S) (ts_max S) (ts_min Q) \<or> between (ts_min S) (ts_max S) (ts_max Q)"
  shows "\<exists>x \<in> set Q. between (ts_min S) (ts_max S) x"
proof -
  from assms have "(\<exists>t. ts_min Q = Time t \<and> between (ts_min S) (ts_max S) (ts_min Q))
      \<or> (\<exists>t. ts_max Q = Time t \<and> between (ts_min S) (ts_max S) (ts_max Q))"
    by (auto simp: between_def split: cell.splits)
  then show ?thesis using ts_min_mem ts_max_mem by metis
qed

lemma map_moves: "x \<in> set xs \<Longrightarrow> f x \<noteq> x \<Longrightarrow> map f xs \<noteq> xs"
  by (induction xs) auto

lemma shift_changes:
  assumes no: "\<not> (\<exists>x \<in> set Q. between (ts_min S) (ts_max S) x)"
    and q: "times_of Q \<noteq> []"
  shows "map (add_shift (shift_of (ts_max S) (ts_max Q))) Q \<noteq> Q"
proof -
  from q obtain u us where "times_of Q = u # us" by (cases "times_of Q") auto
  then have "u \<in> set (times_of Q)" by simp
  then obtain t where t: "Time t \<in> set Q" using times_of_mem by blast
  show ?thesis
  proof (cases "shift_of (ts_max S) (ts_max Q)")
    case None
    then have "add_shift (shift_of (ts_max S) (ts_max Q)) (Time t) \<noteq> Time t"
      by (simp add: add_shift_def)
    with t show ?thesis by (rule map_moves)
  next
    case (Some k)
    then obtain b d where b: "ts_max S = Time b" and d: "ts_max Q = Time d" and k: "k = b - d"
      by (auto simp: shift_of_def split: cell.splits)
    obtain a where a: "ts_min S = Time a"
      using b ts_min_cases [of S] by (auto simp: ts_max_def split: list.splits)
    have ab: "a \<le> b" using ts_max_ge [OF b ts_min_mem [OF a]] .
    have dQ: "Time d \<in> set Q" using ts_max_mem [OF d] .
    have "k \<noteq> 0"
    proof
      assume "k = 0"
      then have "d = b" using k by simp
      then have "between (ts_min S) (ts_max S) (Time d)"
        using a b ab by (simp add: between_def)
      with dQ no show False by blast
    qed
    then have "add_shift (shift_of (ts_max S) (ts_max Q)) (Time t) \<noteq> Time t"
      using Some by (simp add: add_shift_def)
    with t show ?thesis by (rule map_moves)
  qed
qed

text \<open>
  C2 as stated: the quality timestamps are shifted exactly when the two timestamp ranges
  do not overlap. It fails when the sensor range lies strictly inside the quality range
  and no check falls into it: the ranges overlap, and the checks at 1 and 20 are moved
  to -8 and 11.
\<close>

theorem time_alignment_counterexample:
  "ranges_overlap (col_values sensor_demo ''timestamp'') (col_values quality_wide ''timestamp'')
   \<and> col_values quality_wide ''timestamp'' = [Time 1, Time 20]
   \<and> \<not> isl (transform_quality_data plain_lib quality_wide (Some sensor_demo))
   \<and> col_values (projr (transform_quality_data plain_lib quality_wide (Some sensor_demo)))
        ''timestamp'' = [Time (- 8), Time 11]"
  by (simp add: eval_quality quality_wide_def sensor_demo_def plain_lib_def ranges_overlap_def)

text \<open>
  C2, amended. For a sensor frame that is not empty, the alignment step shifts every
  quality timestamp by the constant (sensor maximum - quality maximum) if and only if no
  quality timestamp lies between the sensor minimum and the sensor maximum (inclusive);
  after a shift the quality maximum is the sensor maximum; and when the minimum or the
  maximum of the quality timestamps lies in the sensor range, nothing is changed.
\<close>

theorem time_alignment_amended:
  assumes "usable sensor_df = Some s" and "''timestamp'' \<in> set (columns s)"
  shows "\<exists>out. align_timestamps sensor_df df = Inr out
     \<and> (has_overlap s df \<longrightarrow> out = df)
     \<and> (\<not> has_overlap s df \<longrightarrow>
          col_values out ''timestamp''
            = map (add_shift (shift_of (ts_max (col_values s ''timestamp''))
                                (ts_max (col_values df ''timestamp''))))
                (col_values df ''timestamp''))
     \<and> (\<not> has_overlap s df \<and> times_of (col_values s ''timestamp'') \<noteq> []
          \<and> times_of (col_values df ''timestamp'') \<noteq> [] \<longrightarrow>
          ts_max (col_values out ''timestamp'') = ts_max (col_values s ''timestamp''))
     \<and> (times_of (col_values df ''timestamp'') \<noteq> [] \<longrightarrow>
          (col_values out ''timestamp'' \<noteq> col_values df ''timestamp'' \<longleftrightarrow> \<not> has_overlap s df))
     \<and> (between (ts_min (col_values s ''timestamp'')) (ts_max (col_values s ''timestamp''))
            (ts_min (col_values df ''timestamp''))
          \<or> between (ts_min (col_values s ''timestamp'')) (ts_max (col_values s ''timestamp''))
            (ts_max (col_values df ''timestamp''))
          \<longrightarrow> out = df)"
proof -
  define S where "S = col_values s ''timestamp''"
  define Q where "Q = col_values df ''timestamp''"
  define sh where "sh = shift_of (ts_max S) (ts_max Q)"
  define out where "out = (if has_overlap s df then df else map_col ''timestamp'' (add_shift sh) df)"
  have ov: "has_overlap s df \<longleftrightarrow> (\<exists>x \<in> set Q. between (ts_min S) (ts_max S) x)"
    by (simp add: has_overlap_def S_def Q_def)
  have 1: "align_timestamps sensor_df df = Inr out"
    using assms by (simp add: align_timestamps_def out_def sh_def S_def Q_def Let_def)
  have 2: "has_overlap s df \<longrightarrow> out = df" by (simp add: out_def)
  have col: "\<not> has_overlap s df \<Longrightarrow> col_values out ''timestamp'' = map (add_shift sh) Q"
    by (simp add: out_def col_values_def map_col_def Q_def)
  have 4: "\<not> has_overlap s df \<and> times_of S \<noteq> [] \<and> times_of Q \<noteq> [] \<longrightarrow>
          ts_max (col_values out ''timestamp'') = ts_max S"
  proof (intro impI, elim conjE)
    assume no: "\<not> has_overlap s df" and s: "times_of S \<noteq> []" and q: "times_of Q \<noteq> []"
    obtain b where b: "ts_max S = Time b" using s ts_max_cases [of S] by auto
    obtain d where d: "ts_max Q = Time d" using q ts_max_cases [of Q] by auto
    have "sh = Some (b - d)" by (simp add: sh_def b d shift_of_def)
    then show "ts_max (col_values out ''timestamp'') = ts_max S"
      using col [OF no] ts_max_shift [OF d, of "b - d"] b by simp
  qed
  have 5: "times_of Q \<noteq> [] \<longrightarrow> (col_values out ''timestamp'' \<noteq> Q \<longleftrightarrow> \<not> has_overlap s df)"
  proof
    assume q: "times_of Q \<noteq> []"
    show "col_values out ''timestamp'' \<noteq> Q \<longleftrightarrow> \<not> has_overlap s df"
    proof (cases "has_overlap s df")
      case True
      then show ?thesis by (simp add: out_def Q_def)
    next
      case False
      then have "map (add_shift sh) Q \<noteq> Q"
        unfolding sh_def using shift_changes [of Q S] q ov by blast
      with False col show ?thesis by simp
    qed
  qed
  have 6: "between (ts_min S) (ts_max S) (ts_min Q) \<or> between (ts_min S) (ts_max S) (ts_max Q)
          \<longrightarrow> out = df"
    using overlap_at_end [of S Q] ov by (auto simp: out_def)
  show ?thesis
    using 1 2 col 4 5 6 unfolding S_def Q_def sh_def by blast
qed


theorem time_alignment_amended_witness:
  "usable (Some sensor_demo) = Some sensor_demo
   \<and> ''timestamp'' \<in> set (columns sensor_demo)
   \<and> \<not> has_overlap sensor_demo quality_early
   \<and> (\<exists>out. align_timestamps (Some sensor_demo) quality_early = Inr out
         \<and> col_values quality_early ''timestamp'' = [Time 1, Time 2]
         \<and> col_values out ''timestamp'' = [Time 10, Time 11]
         \<and> ts_max (col_values out ''timestamp'') = Time 11
         \<and> ts_max (col_values sensor_demo ''timestamp'') = Time 11)"
  using time_alignment_amended [of "Some sensor_demo" sensor_demo quality_early]
  by (auto simp: usable_def empty_frame_def sensor_demo_def quality_early_def has_overlap_def
      col_values_def row_of_def ts_min_def ts_max_def times_of_def between_def shift_of_def
      add_shift_def)

subsection \<open>Cleaning: evaluation\<close>


lemma sensor_bad_time_cleaned:
  "\<not> isl (clean_sensor_data plain_lib sensor_bad_time)
   \<and> map (\<lambda>r. map r [''timestamp'', ''temperature''])
         (rows (projr (clean_sensor_data plain_lib sensor_bad_time)))
       = [[Time 1, Num 51], [Null, Num 50], [Null, Num 52]]"
  by code_simp

lemma sensor_bad_time_standardized:
  "\<not> isl (standardize_sensor_data plain_lib sensor_bad_time)
   \<and> map (\<lambda>r. map r [''timestamp'', ''temperature''])
         (rows (projr (standardize_sensor_data plain_lib sensor_bad_time)))
       = [[Time 1, Num 51]]"
  by code_simp

lemma sensor_no_machine_standardized:
  "\<not> isl (standardize_sensor_data plain_lib sensor_no_machine)
   \<and> map (\<lambda>r. map r [''record_id'', ''timestamp'', ''line_id'', ''machine_id'', ''temperature''])
         (rows (projr (standardize_sensor_data plain_lib sensor_no_machine)))
       = [[Str ''3|None|None'', Time 3, Null, Null, Num 50],
          [Str ''3|None|None'', Time 3, Null, Null, Num 70],
          [Str ''3|Line_2|machine_17'', Time 3, Str ''Line_2'', Str ''machine_17'', Num 60]]"
  by code_simp


text \<open>
  C5. An empty dataframe is claimed to pass through the cleaner. The frame without
  columns, which the extraction returns for a missing file, makes \<open>sort_values\<close> raise
  KeyError: the timestamp column is tested for at line 198 and sorted by at line 234
  without a test. A frame with the sensor columns and no row comes back with the
  \<open>data_quality\<close> column added.
\<close>

theorem empty_frame_fails:
  "isl (clean_sensor_data plain_lib no_frame)
   \<and> projl (clean_sensor_data plain_lib no_frame) = KeyError ''timestamp''
   \<and> \<not> isl (clean_sensor_data plain_lib no_rows)
   \<and> columns (projr (clean_sensor_data plain_lib no_rows))
       = [''timestamp'', ''machine_id'', ''temperature'', ''data_quality'']
   \<and> rows (projr (clean_sensor_data plain_lib no_rows)) = []"
  by code_simp

text \<open>
  C7. The label of a row is claimed to be \<open>estimated\<close> when one of its own cells was
  missing or out of range and has been filled. On readings that are not already in
  (machine, time) order the labels land on other rows: \<open>was_estimated\<close> is aligned on
  the index labels and so is in input order, and \<open>np.where\<close> reads it by position
  against the sorted frame. The filled reading of machine_1 at time 2 is labelled
  \<open>good\<close>, the untouched reading of machine_2 at time 1 is labelled \<open>estimated\<close>.
\<close>

theorem quality_label_misplaced:
  "\<not> isl (clean_sensor_data plain_lib sensor_interleaved)
   \<and> map (\<lambda>r. map r [''machine_id'', ''timestamp'', ''temperature'', ''data_quality''])
         (rows (projr (clean_sensor_data plain_lib sensor_interleaved)))
       = [[Str ''machine_1'', Time 1, Num 50, Str ''good''],
          [Str ''machine_1'', Time 2, Num 50, Str ''good''],
          [Str ''machine_2'', Time 1, Num 60, Str ''estimated''],
          [Str ''machine_2'', Time 2, Num 61, Str ''good'']]"
  by code_simp

text \<open>
  C4 as stated: the cleaner removes every row whose timestamp cannot be parsed. It
  keeps them: the two rows without a valid timestamp are in its output, sorted last.
\<close>

theorem unparsed_timestamp_kept:
  "\<not> isl (clean_sensor_data plain_lib sensor_bad_time)
   \<and> map (\<lambda>r. map r [''timestamp'', ''temperature''])
         (rows (projr (clean_sensor_data plain_lib sensor_bad_time)))
       = [[Time 1, Num 51], [Null, Num 50], [Null, Num 52]]"
  by code_simp

subsection \<open>Forward fill\<close>

lemma length_ffill_rows: "length (ffill_rows cols seen rs) = length rs"
  by (induction rs arbitrary: seen) (simp_all add: Let_def)

lemma length_group_ffill_rows: "length (group_ffill_rows g cols seen rs) = length rs"
  by (induction rs arbitrary: seen) (simp_all add: Let_def)

lemma ffill_rows_other:
  "c \<notin> set cols \<Longrightarrow> map (\<lambda>r. r c) (ffill_rows cols seen rs) = map (\<lambda>r. r c) rs"
  by (induction rs arbitrary: seen) (simp_all add: Let_def)

lemma group_ffill_rows_other:
  "c \<notin> set cols \<Longrightarrow> map (\<lambda>r. r c) (group_ffill_rows g cols seen rs) = map (\<lambda>r. r c) rs"
  by (induction rs arbitrary: seen) (simp_all add: Let_def)




lemma sort_values_Inr:
  assumes "sort_values cols ks irows = Inr srt"
  shows "srt = sort_key (\<lambda>ir. map (\<lambda>c. cell_key (snd ir c)) ks) irows"
  using assms by (auto simp: sort_values_def split: list.splits if_splits)

lemma length_np_where:
  "length (np_where cond xs ys) = min (length cond) (min (length xs) (length ys))"
  by (simp add: np_where_def)

lemma length_series_and: "length (series_and a b) = length a"
  by (simp add: series_and_def)

lemma rows_validated:
  "length (rows (validated L df0)) = length (rows (standardize_columns df0))"
  by (simp add: validated_def blank_invalid_def coerce_sensor_def parse_sensor_frame_def
      map_col_def set_col_def Let_def)

lemma length_missing_before: "length (missing_before_of L df0) = length (rows (validated L df0))"
  by (simp add: missing_before_of_def validated_def blank_invalid_def coerce_sensor_def
      invalid_mask_def Let_def)

lemma length_fill_sorted: "length (fill_sorted df cols rs) = length rs"
  by (simp add: fill_sorted_def length_ffill_rows length_group_ffill_rows)

lemma clean_structure:
  assumes "clean_sensor_data L df0 = Inr out"
  shows "\<exists>srt q.
      sort_values (columns (validated L df0)) (sort_cols_of (validated L df0))
        (enumerate 0 (rows (validated L df0))) = Inr srt
    \<and> length q = length srt
    \<and> length srt = length (rows (validated L df0))
    \<and> rows out = map2 (\<lambda>r q. r(''data_quality'' := Str q))
        (fill_sorted (validated L df0) (sensor_cols_of (validated L df0)) (map snd srt)) q"
proof -
  define d where "d = validated L df0"
  obtain srt where srt: "sort_values (columns d) (sort_cols_of d) (enumerate 0 (rows d)) = Inr srt"
    using assms by (auto simp: clean_sensor_data_def d_def Let_def split: sum.splits)
  have n: "length srt = length (rows d)"
    using sort_values_Inr [OF srt] by simp
  define filled where "filled = fill_sorted d (sensor_cols_of d) (map snd srt)"
  define sm where "sm = zip (map fst srt)
     (map (\<lambda>r. \<exists>c \<in> set (sensor_cols_of d). isna (r c)) filled)"
  define we where "we = series_and
     (enumerate 0 (map (\<lambda>m. \<exists>c \<in> set (sensor_cols_of d). m c) (missing_before_of L df0)))
     (map (\<lambda>(i, b). (i, \<not> b)) sm)"
  define q where "q = np_where (map snd sm) (replicate (length filled) ''invalid'')
     (np_where (map snd we) (replicate (length filled) ''estimated'')
        (replicate (length filled) ''good''))"
  have lf: "length filled = length srt" by (simp add: filled_def length_fill_sorted)
  have lsm: "length sm = length srt" by (simp add: sm_def lf)
  have lwe: "length we = length srt"
    by (simp add: we_def length_series_and length_missing_before n d_def)
  have lq: "length q = length srt"
    by (simp add: q_def length_np_where lf lsm lwe)
  have "rows out = map2 (\<lambda>r q. r(''data_quality'' := Str q)) filled q"
    using assms srt
    by (auto simp: clean_sensor_data_def d_def [symmetric] Let_def filled_def sm_def we_def q_def)
  then show ?thesis using srt lq n unfolding d_def filled_def by blast
qed


lemma sensor_cols_names:
  assumes "c \<in> set (sensor_cols_of df)"
  shows "c \<noteq> ''data_quality''" and "c \<noteq> ''timestamp''" and "c \<noteq> ''machine_id''"
proof -
  have "c \<in> set sensor_names" using assms by (simp add: sensor_cols_of_def)
  then show "c \<noteq> ''data_quality''" and "c \<noteq> ''timestamp''" and "c \<noteq> ''machine_id''"
    by (auto simp: sensor_names_def)
qed




lemma fill_sorted_other:
  "c \<notin> set cols \<Longrightarrow> map (\<lambda>r. r c) (fill_sorted df cols rs) = map (\<lambda>r. r c) rs"
  by (simp add: fill_sorted_def ffill_rows_other group_ffill_rows_other)

lemma map_snd_enumerate: "map snd (enumerate n xs) = xs"
  by (simp add: enumerate_eq_zip)



subsection \<open>Rows and timestamps\<close>

lemma validated_timestamps:
  assumes "''timestamp'' \<in> set (columns (standardize_columns df0))"
  shows "map (\<lambda>r. r ''timestamp'') (rows (validated L df0))
       = map (\<lambda>r. to_datetime L (r ''timestamp'')) (rows (standardize_columns df0))"
  using assms
  by (simp add: validated_def blank_invalid_def coerce_sensor_def parse_sensor_frame_def
      map_col_def set_col_def Let_def sensor_cols_of_def sensor_names_def out_of_range_def
      ranges_def)

lemma clean_has_timestamp:
  assumes "clean_sensor_data L df0 = Inr out"
  shows "''timestamp'' \<in> set (columns (standardize_columns df0))"
proof (rule ccontr)
  assume no: "''timestamp'' \<notin> set (columns (standardize_columns df0))"
  have cols: "columns (validated L df0) =
      (if ''power'' \<notin> set (columns (standardize_columns df0))
          \<and> ''energy_consumption'' \<in> set (columns (standardize_columns df0))
       then columns (standardize_columns df0) @ [''power'']
       else columns (standardize_columns df0))"
    by (simp add: validated_def blank_invalid_def coerce_sensor_def parse_sensor_frame_def
        map_col_def set_col_def Let_def)
  have "''timestamp'' \<notin> set (columns (validated L df0))" using no by (simp add: cols)
  then have "\<exists>c t. filter (\<lambda>c. c \<notin> set (columns (validated L df0)))
      (sort_cols_of (validated L df0)) = c # t"
    by (auto simp: sort_cols_of_def)
  then have "isl (clean_sensor_data L df0)"
    by (auto simp: clean_sensor_data_def sort_values_def Let_def)
  with assms show False by simp
qed

lemma cleaner_keeps_rows:
  assumes "clean_sensor_data L df0 = Inr out"
  shows "length (rows out) = length (rows df0)
       \<and> mset (col_values out ''timestamp'')
         = mset (map (\<lambda>r. to_datetime L (r ''timestamp'')) (rows (standardize_columns df0)))"
proof -
  define d where "d = validated L df0"
  obtain srt q where srt: "sort_values (columns d) (sort_cols_of d) (enumerate 0 (rows d)) = Inr srt"
    and lq: "length q = length srt"
    and n: "length srt = length (rows d)"
    and out: "rows out = map2 (\<lambda>r q. r(''data_quality'' := Str q))
        (fill_sorted d (sensor_cols_of d) (map snd srt)) q"
    using clean_structure [OF assms] unfolding d_def by blast
  have len: "length (rows out) = length (rows df0)"
    by (simp add: out lq length_fill_sorted n d_def rows_validated standardize_columns_def)
  have "srt = sort_key (\<lambda>ir. map (\<lambda>c. cell_key (snd ir c)) (sort_cols_of d))
      (enumerate 0 (rows d))"
    using sort_values_Inr [OF srt] .
  then have "mset srt = mset (enumerate 0 (rows d))" by simp
  then have "image_mset snd (mset srt) = image_mset snd (mset (enumerate 0 (rows d)))"
    by (rule arg_cong)
  then have "mset (map snd srt) = mset (map snd (enumerate 0 (rows d)))"
    by (simp only: mset_map)
  then have perm: "mset (map snd srt) = mset (rows d)" by (simp add: map_snd_enumerate)
  have ts: "''timestamp'' \<notin> set (sensor_cols_of d)"
    using sensor_cols_names(2) by blast
  have "col_values out ''timestamp''
      = map (\<lambda>r. r ''timestamp'') (fill_sorted d (sensor_cols_of d) (map snd srt))"
    unfolding col_values_def out
    by (rule nth_equalityI) (simp_all add: lq length_fill_sorted)
  also have "\<dots> = map (\<lambda>r. r ''timestamp'') (map snd srt)"
    by (rule fill_sorted_other [OF ts])
  finally have "col_values out ''timestamp'' = map (\<lambda>r. r ''timestamp'') (map snd srt)" .
  then have "mset (col_values out ''timestamp'')
      = mset (map (\<lambda>r. r ''timestamp'') (map snd srt))"
    by (simp only:)
  also have "\<dots> = mset (map (\<lambda>r. r ''timestamp'') (rows d))"
  proof -
    have "image_mset (\<lambda>r. r ''timestamp'') (mset (map snd srt))
        = image_mset (\<lambda>r. r ''timestamp'') (mset (rows d))"
      using perm by (rule arg_cong)
    then show ?thesis by (simp only: flip: mset_map)
  qed
  also have "\<dots> = mset (map (\<lambda>r. to_datetime L (r ''timestamp'')) (rows (standardize_columns df0)))"
    unfolding d_def using validated_timestamps [OF clean_has_timestamp [OF assms]] by simp
  finally show ?thesis using len by simp
qed

lemma same_identity_trans:
  "same_identity a b \<Longrightarrow> same_identity b c \<Longrightarrow> same_identity a c"
  by (simp add: same_identity_def)

lemma list_all2_map_same:
  "(\<And>x. x \<in> set xs \<Longrightarrow> R x (f x)) \<Longrightarrow> list_all2 R xs (map f xs)"
  by (simp add: list.rel_map list_all2_same)

lemma ensure_numeric_identity:
  assumes "col \<in> set sensor_names"
  shows "list_all2 same_identity (rows df) (rows (ensure_numeric L col df))"
proof -
  have ne: "col \<noteq> ''timestamp''" "col \<noteq> ''machine_id''" "col \<noteq> ''line_id''"
    using assms by (auto simp: sensor_names_def)
  show ?thesis
  proof (cases "col \<in> set (columns df)")
    case True
    then have "rows (ensure_numeric L col df) = map (\<lambda>r. r(col := to_numeric L (r col))) (rows df)"
      by (simp add: ensure_numeric_def map_col_def)
    then show ?thesis using ne by (simp add: list.rel_map list_all2_same same_identity_def)
  next
    case False
    then have "rows (ensure_numeric L col df) = map (\<lambda>r. r(col := to_numeric L Null)) (rows df)"
      by (simp add: ensure_numeric_def map_col_def set_col_def)
    then show ?thesis using ne by (simp add: list.rel_map list_all2_same same_identity_def)
  qed
qed

lemma fold_ensure_identity:
  assumes "set cs \<subseteq> set sensor_names"
  shows "list_all2 same_identity (rows df) (rows (fold (ensure_numeric L) cs df))"
  using assms
proof (induction cs arbitrary: df)
  case Nil
  show ?case by (simp add: list_all2_same same_identity_def)
next
  case (Cons c cs)
  have 1: "list_all2 same_identity (rows df) (rows (ensure_numeric L c df))"
    using Cons.prems by (intro ensure_numeric_identity) simp
  have 2: "list_all2 same_identity (rows (ensure_numeric L c df))
      (rows (fold (ensure_numeric L) cs (ensure_numeric L c df)))"
    using Cons.prems by (intro Cons.IH) simp
  from 1 2 show ?case
    using list_all2_trans [of same_identity same_identity same_identity] same_identity_trans
    by fastforce
qed

lemma fold_ensure_columns:
  "set (columns df) \<subseteq> set (columns (fold (ensure_numeric L) cs df))
   \<and> set cs \<subseteq> set (columns (fold (ensure_numeric L) cs df))"
proof (induction cs arbitrary: df)
  case Nil
  show ?case by simp
next
  case (Cons c cs)
  have "set (columns df) \<subseteq> set (columns (ensure_numeric L c df))"
    "c \<in> set (columns (ensure_numeric L c df))"
    by (auto simp: ensure_numeric_def map_col_def set_col_def)
  with Cons.IH [of "ensure_numeric L c df"] show ?case by auto
qed

lemma to_machine_str_blank: "blank L x \<Longrightarrow> to_machine_str L x = Null"
  by (auto simp: blank_def to_machine_str_def lower_def Let_def)

lemma derive_line_id_Null: "derive_line_id L Null = Null"
  by (simp add: derive_line_id_def isna_def)

lemma make_record_id_Null:
  "make_record_id L t Null Null = md5_hex L (isoformat_cell L t @ ''|None|None'')"
  by (simp add: make_record_id_def format_field_def)


lemma standardize_rows:
  assumes "standardize_sensor_data L df0 = Inr out"
  shows "list_all2
     (\<lambda>r z. z ''timestamp'' = to_datetime L (r ''timestamp'')
          \<and> z ''machine_id'' = to_machine_str L (r ''machine_id'')
          \<and> z ''line_id'' = derive_line_id L (z ''machine_id'')
          \<and> z ''record_id''
              = Str (make_record_id L (z ''timestamp'') (z ''line_id'') (z ''machine_id'')))
     (filter (\<lambda>r. \<not> isna (to_datetime L (r ''timestamp''))) (rows (standardize_columns df0)))
     (rows out)"
proof -
  define rows0 where "rows0 = rows (standardize_columns df0)"
  define kept where "kept = filter (\<lambda>r. \<not> isna (to_datetime L (r ''timestamp''))) rows0"
  define Y0 where "Y0 = dropna [''timestamp'']
     (map_col ''timestamp'' (to_datetime L) (standardize_columns df0))"
  define Y2 where "Y2 = set_col ''line_id'' (\<lambda>r. derive_line_id L (r ''machine_id''))
     (map_col ''machine_id'' (to_machine_str L) Y0)"
  define Y3 where "Y3 = fold (ensure_numeric L) sensor_names Y2"
  define Y4 where "Y4 = (if ''data_quality'' \<notin> set (columns Y3)
     then set_col ''data_quality'' (\<lambda>_. Str ''good'') Y3 else Y3)"
  define Y5 where "Y5 = set_col ''record_id''
     (\<lambda>r. Str (make_record_id L (r ''timestamp'') (r ''line_id'') (r ''machine_id''))) Y4"
  have sel: "select_cols out_cols Y5 = Inr out"
    using assms
    by (simp add: standardize_sensor_data_def Let_def Y0_def Y2_def Y3_def Y4_def Y5_def
        dropna_def map_col_def split: if_splits)
  then have out: "rows out = map (\<lambda>r c. if c \<in> set out_cols then r c else Null) (rows Y5)"
    by (auto simp: select_cols_def split: list.splits)
  have r0: "rows Y0 = map (\<lambda>r. r(''timestamp'' := to_datetime L (r ''timestamp''))) kept"
    by (simp add: Y0_def dropna_def map_col_def kept_def rows0_def filter_map comp_def)
  have r2: "rows Y2 = map (\<lambda>r. (r(''machine_id'' := to_machine_str L (r ''machine_id'')))
        (''line_id'' := derive_line_id L (to_machine_str L (r ''machine_id'')))) (rows Y0)"
    by (simp add: Y2_def set_col_def map_col_def)
  have a: "list_all2 (\<lambda>r y. y ''timestamp'' = to_datetime L (r ''timestamp'')
          \<and> y ''machine_id'' = to_machine_str L (r ''machine_id'')
          \<and> y ''line_id'' = derive_line_id L (y ''machine_id'')) kept (rows Y2)"
    unfolding r2 r0 by (simp add: list.rel_map list_all2_same)
  have b: "list_all2 same_identity (rows Y2) (rows Y3)"
    unfolding Y3_def by (rule fold_ensure_identity) simp
  have c: "list_all2 same_identity (rows Y3) (rows Y4)"
    by (simp add: Y4_def set_col_def list.rel_map list_all2_same same_identity_def)
  have d: "list_all2 (\<lambda>y z. same_identity y z
          \<and> z ''record_id''
              = Str (make_record_id L (y ''timestamp'') (y ''line_id'') (y ''machine_id'')))
        (rows Y4) (rows out)"
    unfolding out Y5_def
    by (simp add: set_col_def list.rel_map list_all2_same same_identity_def out_cols_def)
  have bc: "list_all2 same_identity (rows Y2) (rows Y4)"
    using list_all2_trans [of same_identity same_identity same_identity, OF _ b c]
      same_identity_trans by blast
  have abc: "list_all2 (\<lambda>r y. y ''timestamp'' = to_datetime L (r ''timestamp'')
          \<and> y ''machine_id'' = to_machine_str L (r ''machine_id'')
          \<and> y ''line_id'' = derive_line_id L (y ''machine_id'')) kept (rows Y4)"
    by (rule list_all2_trans [OF _ a bc]) (simp add: same_identity_def)
  show ?thesis
    unfolding kept_def [symmetric] rows0_def [symmetric]
    by (rule list_all2_trans [OF _ abc d]) (simp add: same_identity_def)
qed

lemma standardize_drops_missing_timestamps:
  assumes "standardize_sensor_data L df0 = Inr out"
  shows "\<forall>z \<in> set (rows out). \<not> isna (z ''timestamp'')"
proof
  fix z assume "z \<in> set (rows out)"
  then obtain i where i: "i < length (rows out)" and z: "z = rows out ! i"
    by (auto simp: in_set_conv_nth)
  define kept where
    "kept = filter (\<lambda>r. \<not> isna (to_datetime L (r ''timestamp''))) (rows (standardize_columns df0))"
  have la: "list_all2 (\<lambda>r z. z ''timestamp'' = to_datetime L (r ''timestamp'')) kept (rows out)"
    unfolding kept_def by (rule list_all2_mono [OF standardize_rows [OF assms]]) simp
  have len: "length kept = length (rows out)" using la by (rule list_all2_lengthD)
  have "kept ! i \<in> set kept" using i len by simp
  then have "\<not> isna (to_datetime L ((kept ! i) ''timestamp''))" by (simp add: kept_def)
  moreover have "z ''timestamp'' = to_datetime L ((kept ! i) ''timestamp'')"
    unfolding z using la i by (rule list_all2_nthD2)
  ultimately show "\<not> isna (z ''timestamp'')" by simp
qed


text \<open>
  C4, amended. The cleaner turns every timestamp that cannot be parsed into a missing
  value and removes no row: its output has as many rows as its input, with the parsed
  timestamps of the input. The rows without a timestamp are removed by the standardizer,
  the next stage: no row of its output has a missing timestamp.
\<close>

theorem unparsed_timestamps_amended:
  "(clean_sensor_data L df0 = Inr out \<longrightarrow>
      length (rows out) = length (rows df0)
    \<and> mset (col_values out ''timestamp'')
        = mset (map (\<lambda>r. to_datetime L (r ''timestamp'')) (rows (standardize_columns df0))))
   \<and> (standardize_sensor_data L df0 = Inr out' \<longrightarrow>
        (\<forall>z \<in> set (rows out'). \<not> isna (z ''timestamp'')))"
  using cleaner_keeps_rows [of L df0 out] standardize_drops_missing_timestamps [of L df0 out']
  by blast

theorem unparsed_timestamps_amended_witness:
  "\<exists>out out'. clean_sensor_data plain_lib sensor_bad_time = Inr out
     \<and> standardize_sensor_data plain_lib sensor_bad_time = Inr out'
     \<and> length (rows out) = 3
     \<and> map (\<lambda>r. map r [''timestamp'', ''temperature'']) (rows out)
         = [[Time 1, Num 51], [Null, Num 50], [Null, Num 52]]
     \<and> map (\<lambda>r. map r [''timestamp'', ''temperature'']) (rows out') = [[Time 1, Num 51]]"
proof -
  obtain out where out: "clean_sensor_data plain_lib sensor_bad_time = Inr out"
    using sensor_bad_time_cleaned
    by (cases "clean_sensor_data plain_lib sensor_bad_time") auto
  obtain out' where out': "standardize_sensor_data plain_lib sensor_bad_time = Inr out'"
    using sensor_bad_time_standardized
    by (cases "standardize_sensor_data plain_lib sensor_bad_time") auto
  have 1: "map (\<lambda>r. map r [''timestamp'', ''temperature'']) (rows out)
         = [[Time 1, Num 51], [Null, Num 50], [Null, Num 52]]"
    using sensor_bad_time_cleaned out by simp
  have 2: "map (\<lambda>r. map r [''timestamp'', ''temperature'']) (rows out') = [[Time 1, Num 51]]"
    using sensor_bad_time_standardized out' by simp
  have "length (rows out) = length (rows sensor_bad_time)"
    using unparsed_timestamps_amended [of plain_lib sensor_bad_time out out'] out by blast
  then have 3: "length (rows out) = 3" by (simp add: sensor_bad_time_def)
  from out out' 1 2 3 show ?thesis by (intro exI conjI)
qed

subsection \<open>Rows without a machine\<close>

text \<open>
  C10. The standardizer drops the rows without a parsed timestamp and no other row. A
  row whose machine_id is missing or blank comes out with machine_id and line_id
  missing and with the record_id of the text \<open>timestamp|None|None\<close>, so two such rows
  with the same timestamp get the same record_id, whatever their sensor values.
\<close>

theorem null_machine_rows_kept:
  assumes "standardize_sensor_data L df0 = Inr out"
  shows "list_all2
     (\<lambda>r z. z ''timestamp'' = to_datetime L (r ''timestamp'')
          \<and> (blank L (r ''machine_id'') \<longrightarrow>
                z ''machine_id'' = Null \<and> z ''line_id'' = Null
              \<and> z ''record_id''
                  = Str (md5_hex L (isoformat_cell L (z ''timestamp'') @ ''|None|None''))))
     (filter (\<lambda>r. \<not> isna (to_datetime L (r ''timestamp''))) (rows (standardize_columns df0)))
     (rows out)
   \<and> (\<forall>z \<in> set (rows out). \<forall>z' \<in> set (rows out).
        z ''machine_id'' = Null \<and> z' ''machine_id'' = Null
        \<and> z ''timestamp'' = z' ''timestamp'' \<longrightarrow> z ''record_id'' = z' ''record_id'')"
proof
  show "list_all2
     (\<lambda>r z. z ''timestamp'' = to_datetime L (r ''timestamp'')
          \<and> (blank L (r ''machine_id'') \<longrightarrow>
                z ''machine_id'' = Null \<and> z ''line_id'' = Null
              \<and> z ''record_id''
                  = Str (md5_hex L (isoformat_cell L (z ''timestamp'') @ ''|None|None''))))
     (filter (\<lambda>r. \<not> isna (to_datetime L (r ''timestamp''))) (rows (standardize_columns df0)))
     (rows out)"
    by (rule list_all2_mono [OF standardize_rows [OF assms]])
      (auto simp: to_machine_str_blank derive_line_id_Null make_record_id_Null)
next
  have all: "\<forall>z \<in> set (rows out).
      z ''line_id'' = derive_line_id L (z ''machine_id'')
    \<and> z ''record_id''
        = Str (make_record_id L (z ''timestamp'') (z ''line_id'') (z ''machine_id''))"
    using standardize_rows [OF assms]
    by (auto simp: list_all2_conv_all_nth in_set_conv_nth)
  show "\<forall>z \<in> set (rows out). \<forall>z' \<in> set (rows out).
        z ''machine_id'' = Null \<and> z' ''machine_id'' = Null
        \<and> z ''timestamp'' = z' ''timestamp'' \<longrightarrow> z ''record_id'' = z' ''record_id''"
  proof (intro ballI impI)
    fix z z' assume z: "z \<in> set (rows out)" and z': "z' \<in> set (rows out)"
      and h: "z ''machine_id'' = Null \<and> z' ''machine_id'' = Null
        \<and> z ''timestamp'' = z' ''timestamp''"
    from all z have "z ''line_id'' = derive_line_id L (z ''machine_id'')"
      and "z ''record_id''
        = Str (make_record_id L (z ''timestamp'') (z ''line_id'') (z ''machine_id''))"
      by blast+
    with h have "z ''record_id''
        = Str (md5_hex L (isoformat_cell L (z ''timestamp'') @ ''|None|None''))"
      by (simp add: derive_line_id_Null make_record_id_Null)
    moreover from all z' have "z' ''line_id'' = derive_line_id L (z' ''machine_id'')"
      and "z' ''record_id''
        = Str (make_record_id L (z' ''timestamp'') (z' ''line_id'') (z' ''machine_id''))"
      by blast+
    with h have "z' ''record_id''
        = Str (md5_hex L (isoformat_cell L (z ''timestamp'') @ ''|None|None''))"
      by (simp add: derive_line_id_Null make_record_id_Null)
    ultimately show "z ''record_id'' = z' ''record_id''" by simp
  qed
qed

theorem null_machine_rows_kept_witness:
  "\<exists>out. standardize_sensor_data plain_lib sensor_no_machine = Inr out
     \<and> map (\<lambda>r. map r [''record_id'', ''timestamp'', ''line_id'', ''machine_id'',
                        ''temperature'']) (rows out)
       = [[Str ''3|None|None'', Time 3, Null, Null, Num 50],
          [Str ''3|None|None'', Time 3, Null, Null, Num 70],
          [Str ''3|Line_2|machine_17'', Time 3, Str ''Line_2'', Str ''machine_17'', Num 60]]
     \<and> (\<forall>z \<in> set (rows out). \<forall>z' \<in> set (rows out).
          z ''machine_id'' = Null \<and> z' ''machine_id'' = Null
          \<and> z ''timestamp'' = z' ''timestamp'' \<longrightarrow> z ''record_id'' = z' ''record_id'')"
proof -
  obtain out where out: "standardize_sensor_data plain_lib sensor_no_machine = Inr out"
    using sensor_no_machine_standardized
    by (cases "standardize_sensor_data plain_lib sensor_no_machine") auto
  have vals: "map (\<lambda>r. map r [''record_id'', ''timestamp'', ''line_id'', ''machine_id'',
                        ''temperature'']) (rows out)
       = [[Str ''3|None|None'', Time 3, Null, Null, Num 50],
          [Str ''3|None|None'', Time 3, Null, Null, Num 70],
          [Str ''3|Line_2|machine_17'', Time 3, Str ''Line_2'', Str ''machine_17'', Num 60]]"
    using sensor_no_machine_standardized out by simp
  have "\<forall>z \<in> set (rows out). \<forall>z' \<in> set (rows out).
          z ''machine_id'' = Null \<and> z' ''machine_id'' = Null
          \<and> z ''timestamp'' = z' ''timestamp'' \<longrightarrow> z ''record_id'' = z' ''record_id''"
    using null_machine_rows_kept [OF out] by (rule conjunct2)
  with out vals show ?thesis by (intro exI conjI)
qed

end
